theory Spec2Isabelle
  imports Complex_Main "HOL-Library.AList"
begin

section \<open>Python values and errors\<close>

text \<open>
  The backend is Python. Values that come out of JSON (request bodies, JSON columns, model
  output run through \<^verbatim>\<open>json.loads\<close>) and values kept in metadata dictionaries are
  modelled by one datatype. A float is modelled by the rational number it stands for, so
  sums and quotients are exact. A \<^verbatim>\<open>dict\<close> nested in a value is an association list
  in insertion order with distinct keys.
\<close>

datatype pyval =
    PNone
  | PBool bool
  | PInt int
  | PFloat rat
  | PStr string
  | PList "pyval list"
  | PDict "(string \<times> pyval) list"

text \<open>Every raise of the source is a value of this type.\<close>

datatype error =
    KeyError string
  | TypeError
  | ValueError
  | AttributeError
  | JSONDecodeError
  | ProviderUnavailable
  | MalformedProviderOutput
  | DocumentUnreadable
  | LayoutFailure
  | HTTPException nat string

text \<open>Python's \<^verbatim>\<open>==\<close>: \<^verbatim>\<open>bool\<close>, \<^verbatim>\<open>int\<close> and \<^verbatim>\<open>float\<close> compare by
  numeric value (\<^verbatim>\<open>True == 1\<close>), lists elementwise, dictionaries key by key whatever
  their order, and values of different kinds are unequal.\<close>

fun py_num :: "pyval \<Rightarrow> rat option" where
  "py_num (PBool b) = Some (if b then 1 else 0)"
| "py_num (PInt i) = Some (of_int i)"
| "py_num (PFloat r) = Some r"
| "py_num _ = None"

fun py_eq :: "pyval \<Rightarrow> pyval \<Rightarrow> bool"
  and py_eq_list :: "pyval list \<Rightarrow> pyval list \<Rightarrow> bool"
  and py_eq_items :: "(string \<times> pyval) list \<Rightarrow> (string \<times> pyval) list \<Rightarrow> bool"
  and py_eq_item :: "string \<Rightarrow> pyval \<Rightarrow> (string \<times> pyval) list \<Rightarrow> bool" where
  "py_eq PNone y = (y = PNone)"
| "py_eq (PStr s) y = (y = PStr s)"
| "py_eq (PList xs) (PList ys) = py_eq_list xs ys"
| "py_eq (PList xs) _ = False"
| "py_eq (PDict a) (PDict b) = (length a = length b \<and> py_eq_items a b)"
| "py_eq (PDict a) _ = False"
| "py_eq x y = (case (py_num x, py_num y) of (Some a, Some b) \<Rightarrow> a = b | _ \<Rightarrow> False)"
| "py_eq_list [] ys = (ys = [])"
| "py_eq_list (x # xs) [] = False"
| "py_eq_list (x # xs) (y # ys) = (py_eq x y \<and> py_eq_list xs ys)"
| "py_eq_items [] b = True"
| "py_eq_items ((k, v) # a) b = (py_eq_item k v b \<and> py_eq_items a b)"
| "py_eq_item k v [] = False"
| "py_eq_item k v ((k', v') # b) = (if k = k' then py_eq v v' else py_eq_item k v b)"

text \<open>\<^verbatim>\<open>d.get(k)\<close> on a dictionary with string keys: \<^verbatim>\<open>None\<close> when the key is absent.\<close>

definition dict_get :: "(string \<rightharpoonup> pyval) \<Rightarrow> string \<Rightarrow> pyval" where
  "dict_get d k = (case d k of None \<Rightarrow> PNone | Some v \<Rightarrow> v)"

text \<open>\<^verbatim>\<open>str(n)\<close> and the \<^verbatim>\<open>{n}\<close> of an f-string, for an integer: decimal digits, with
  a leading minus sign for a negative number.\<close>

definition digit_char :: "nat \<Rightarrow> char" where
  "digit_char d = ''0123456789'' ! d"

function str_nat :: "nat \<Rightarrow> string" where
  "str_nat n = (if n < 10 then [digit_char n] else str_nat (n div 10) @ [digit_char (n mod 10)])"
  by pat_completeness auto
termination
  by (relation "measure id") auto

declare str_nat.simps [simp del]

definition str_int :: "int \<Rightarrow> string" where
  "str_int i = (if i < 0 then CHR ''-'' # str_nat (nat (- i)) else str_nat (nat i))"

text \<open>\<^verbatim>\<open>sep.join(parts)\<close>.\<close>

fun str_join :: "string \<Rightarrow> string list \<Rightarrow> string" where
  "str_join sep [] = []"
| "str_join sep [s] = s"
| "str_join sep (s # t # rest) = s @ sep @ str_join sep (t # rest)"

definition nl :: string where
  "nl = [CHR 0x0A]"

definition dq :: string where
  "dq = [CHR 0x22]"

definition apostrophe :: string where
  "apostrophe = [CHR 0x27]"


section \<open>The retrieval system (rag\_system.py)\<close>

subsection \<open>Documents, the vector store and the provider\<close>

text \<open>A langchain \<^verbatim>\<open>Document\<close>: its text and its metadata dictionary.\<close>

record document =
  page_content :: string
  metadata :: "string \<rightharpoonup> pyval"

text \<open>What a collection stores for one chunk: the document and its embedding. The type of
  embedding vectors is a parameter.\<close>

record 'v entry =
  entry_doc :: document
  entry_vec :: 'v

text \<open>The persisted vector store (\<^verbatim>\<open>CHROMA_PERSIST_DIR\<close>): the content of every collection,
  by collection name. \<^verbatim>\<open>Chroma(collection_name=...)\<close> gets the collection or creates it
  empty, so a name that was never written holds the empty list.\<close>

type_synonym 'v store = "string \<Rightarrow> 'v entry list"

definition empty_store :: "'v store" where
  "empty_store = (\<lambda>name. [])"

text \<open>The \<^verbatim>\<open>Search\<close> schema of \<^verbatim>\<open>_analyze_query\<close>: a search text and a section, one of
  three literals.\<close>

datatype section_literal = Beginning | Middle | End

fun section_str :: "section_literal \<Rightarrow> string" where
  "section_str Beginning = ''beginning''"
| "section_str Middle = ''middle''"
| "section_str End = ''end''"

record search =
  search_query :: string
  search_section :: section_literal

text \<open>A chat message: the system message built by \<^verbatim>\<open>_generate\<close>, or a prior turn given
  by the caller as \<^verbatim>\<open>{"role": ..., "content": ...}\<close>.\<close>

datatype message = SystemMessage string | RoleMessage string string

text \<open>
  The external collaborators, as parameters. Each call that goes over the network or reads
  a file may raise, so it returns a sum.
  \<^item> \<open>load_pdf\<close>: \<^verbatim>\<open>PyPDFLoader(file_path).load()\<close>;
  \<^item> \<open>split_documents\<close>: \<^verbatim>\<open>self.text_splitter.split_documents\<close>;
  \<^item> \<open>embed\<close>: the embedding model, one text at a time;
  \<^item> \<open>distance\<close>: the distance between two embeddings that the store ranks by;
  \<^item> \<open>llm_structured\<close>: \<^verbatim>\<open>self.llm.with_structured_output(schema).invoke\<close>;
  \<^item> \<open>llm_invoke\<close>: \<^verbatim>\<open>self.llm.invoke\<close> on a message list, giving the response's content;
  \<^item> \<open>llm_ainvoke\<close>: \<^verbatim>\<open>self.llm.ainvoke\<close> on a prompt string, giving the response's content.
\<close>

record 'v env =
  load_pdf :: "string \<Rightarrow> error + document list"
  split_documents :: "document list \<Rightarrow> document list"
  embed :: "string \<Rightarrow> error + 'v"
  distance :: "'v \<Rightarrow> 'v \<Rightarrow> rat"
  llm_structured :: "string \<Rightarrow> error + search"
  llm_invoke :: "message list \<Rightarrow> error + string"
  llm_ainvoke :: "string \<Rightarrow> error + string"

subsection \<open>Indexing\<close>

text \<open>\<^verbatim>\<open>f"user_{user_id}_docs"\<close>.\<close>

definition collection_name :: "int \<Rightarrow> string" where
  "collection_name user_id = ''user_'' @ str_int user_id @ ''_docs''"

text \<open>The loop body of \<^verbatim>\<open>index_document\<close>: both keys are assigned, replacing any value
  the loader had put there.\<close>

definition tag_chunk :: "int \<Rightarrow> int \<Rightarrow> document \<Rightarrow> document" where
  "tag_chunk user_id doc_id chunk =
     chunk\<lparr>metadata := (metadata chunk)(''user_id'' \<mapsto> PInt user_id, ''doc_id'' \<mapsto> PInt doc_id)\<rparr>"

text \<open>Modelled from the spec: \<^verbatim>\<open>Collection.add(chunks)\<close> of the vector store, which is
  the third-party Chroma client and not part of the repository. An embedding is requested
  for each chunk; if a request fails nothing is written and the failure is raised;
  otherwise the chunks are appended to the collection in order.\<close>

fun embed_documents :: "'v env \<Rightarrow> document list \<Rightarrow> error + 'v entry list" where
  "embed_documents env [] = Inr []"
| "embed_documents env (d # ds) =
     (case embed env (page_content d) of
        Inl e \<Rightarrow> Inl e
      | Inr v \<Rightarrow>
          (case embed_documents env ds of
             Inl e \<Rightarrow> Inl e
           | Inr es \<Rightarrow> Inr (\<lparr>entry_doc = d, entry_vec = v\<rparr> # es)))"

definition add_documents ::
  "'v env \<Rightarrow> 'v store \<Rightarrow> string \<Rightarrow> document list \<Rightarrow> error + 'v store" where
  "add_documents env st name chunks =
     (case embed_documents env chunks of
        Inl e \<Rightarrow> Inl e
      | Inr es \<Rightarrow> Inr (st(name := st name @ es)))"

text \<open>\<^verbatim>\<open>RAGSystem.index_document\<close>. There is no \<^verbatim>\<open>try\<close> in it: a failure of the loader
  or of the store is the result.\<close>

definition index_document ::
  "'v env \<Rightarrow> 'v store \<Rightarrow> string \<Rightarrow> int \<Rightarrow> int \<Rightarrow> error + ('v store \<times> nat)" where
  "index_document env st file_path user_id doc_id =
     (case load_pdf env file_path of
        Inl e \<Rightarrow> Inl e
      | Inr documents \<Rightarrow>
          (let chunks = map (tag_chunk user_id doc_id) (split_documents env documents) in
           case add_documents env st (collection_name user_id) chunks of
             Inl e \<Rightarrow> Inl e
           | Inr st' \<Rightarrow> Inr (st', length chunks)))"

text \<open>The stores that indexing can build, starting from an empty directory.\<close>

inductive reachable :: "'v env \<Rightarrow> 'v store \<Rightarrow> bool" for env :: "'v env" where
  reachable_empty: "reachable env empty_store"
| reachable_index:
    "reachable env st \<Longrightarrow> index_document env st file_path user_id doc_id = Inr (st', n)
       \<Longrightarrow> reachable env st'"

subsection \<open>The query pipeline\<close>

text \<open>\<^verbatim>\<open>RAGSystem._get_vectorstore\<close>: the collection named after the user.\<close>

definition get_vectorstore :: "'v store \<Rightarrow> int \<Rightarrow> 'v entry list" where
  "get_vectorstore st user_id = st (collection_name user_id)"

text \<open>Modelled from the spec: \<^verbatim>\<open>Collection.search(queryVector, k, filterPredicate)\<close> of the
  vector store (the third-party Chroma client, not part of the repository): the query text
  is embedded, the entries whose document passes the filter are ranked by ascending
  distance to the query (ties in stored order), and the first \<open>k\<close> documents are returned.
  The filter is a Python callable and may raise; the first raise ends the search.\<close>

fun filter_entries ::
  "(document \<Rightarrow> error + bool) \<Rightarrow> 'v entry list \<Rightarrow> error + 'v entry list" where
  "filter_entries p [] = Inr []"
| "filter_entries p (x # xs) =
     (case p (entry_doc x) of
        Inl e \<Rightarrow> Inl e
      | Inr keep \<Rightarrow>
          (case filter_entries p xs of
             Inl e \<Rightarrow> Inl e
           | Inr ys \<Rightarrow> Inr (if keep then x # ys else ys)))"

definition similarity_search ::
  "'v env \<Rightarrow> 'v entry list \<Rightarrow> string \<Rightarrow> nat \<Rightarrow> (document \<Rightarrow> error + bool)
     \<Rightarrow> error + document list" where
  "similarity_search env collection text k p =
     (case embed env text of
        Inl e \<Rightarrow> Inl e
      | Inr qv \<Rightarrow>
          (case filter_entries p collection of
             Inl e \<Rightarrow> Inl e
           | Inr candidates \<Rightarrow>
               Inr (map entry_doc
                 (take k (sort_key (\<lambda>x. distance env qv (entry_vec x)) candidates)))))"

text \<open>The dictionary under the state's \<^verbatim>\<open>"query"\<close> key. The code puts three keys in it,
  each of one type; a key that is absent is \<open>None\<close>, and reading it raises \<^verbatim>\<open>KeyError\<close>.\<close>

record query_dict =
  qd_user_id :: "int option"
  qd_query :: "string option"
  qd_section :: "section_literal option"

text \<open>\<^verbatim>\<open>RAGState\<close>. A \<^verbatim>\<open>TypedDict\<close> is a plain dictionary, so a key may be missing:
  the initial state of \<^verbatim>\<open>query_documents\<close> has no \<^verbatim>\<open>"context"\<close> and no \<^verbatim>\<open>"answer"\<close>.\<close>

record rag_state =
  rs_question :: string
  rs_query :: query_dict
  rs_context :: "document list option"
  rs_messages :: "message list option"
  rs_answer :: "string option"

text \<open>\<^verbatim>\<open>RAGSystem._analyze_query\<close> returns \<^verbatim>\<open>{"query": search_query}\<close>, where
  \<^verbatim>\<open>search_query\<close> is the structured output: a dictionary with the two keys of the
  schema.\<close>

definition search_dict :: "search \<Rightarrow> query_dict" where
  "search_dict s =
     \<lparr>qd_user_id = None, qd_query = Some (search_query s), qd_section = Some (search_section s)\<rparr>"

definition analyze_query :: "'v env \<Rightarrow> rag_state \<Rightarrow> error + query_dict" where
  "analyze_query env state =
     (case llm_structured env (rs_question state) of
        Inl e \<Rightarrow> Inl e
      | Inr structured \<Rightarrow> Inr (search_dict structured))"

text \<open>The \<^verbatim>\<open>filter\<close> lambda of \<^verbatim>\<open>_retrieve\<close>:
  \<^verbatim>\<open>doc.metadata.get("section") == query["section"]\<close>, where the subscript is evaluated
  each time the lambda is called.\<close>

definition section_filter :: "query_dict \<Rightarrow> document \<Rightarrow> error + bool" where
  "section_filter query doc =
     (case qd_section query of
        None \<Rightarrow> Inl (KeyError ''section'')
      | Some s \<Rightarrow> Inr (py_eq (dict_get (metadata doc) ''section'') (PStr (section_str s))))"

text \<open>\<^verbatim>\<open>RAGSystem._retrieve\<close>, with \<open>k = 5\<close>. The subscripts are evaluated in the order of
  the source: \<^verbatim>\<open>state["query"]["user_id"]\<close> first, then \<^verbatim>\<open>query["query"]\<close>.\<close>

definition retrieve :: "'v env \<Rightarrow> 'v store \<Rightarrow> rag_state \<Rightarrow> error + document list" where
  "retrieve env st state =
     (let query = rs_query state in
      case qd_user_id query of
        None \<Rightarrow> Inl (KeyError ''user_id'')
      | Some user_id \<Rightarrow>
          (let vectorstore = get_vectorstore st user_id in
           case qd_query query of
             None \<Rightarrow> Inl (KeyError ''query'')
           | Some text \<Rightarrow> similarity_search env vectorstore text 5 (section_filter query)))"

definition system_prompt :: string where
  "system_prompt =
     ''You are an assistant for question-answering tasks. '' @
     ''Use the following pieces of retrieved context to answer '' @
     ''the question. If you don'' @ apostrophe @ ''t know the answer, say that you don'' @
     apostrophe @ ''t know. '' @
     ''Keep the answer concise and clear.'' @ nl @ nl"

text \<open>\<^verbatim>\<open>RAGSystem._generate\<close>: \<^verbatim>\<open>state["context"]\<close> raises when the key is missing,
  \<^verbatim>\<open>state.get("messages", [])\<close> does not.\<close>

definition generate :: "'v env \<Rightarrow> rag_state \<Rightarrow> error + string" where
  "generate env state =
     (case rs_context state of
        None \<Rightarrow> Inl (KeyError ''context'')
      | Some docs \<Rightarrow>
          (let docs_content = str_join (nl @ nl) (map page_content docs);
               system_message = SystemMessage (system_prompt @ docs_content);
               conversation_messages = [system_message]
           in llm_invoke env
                (conversation_messages @ (case rs_messages state of None \<Rightarrow> [] | Some ms \<Rightarrow> ms))))"

text \<open>\<^verbatim>\<open>_build_graph\<close> and \<^verbatim>\<open>graph.invoke\<close>: the three nodes run in the order of the
  edges, \<^verbatim>\<open>analyze_query\<close>, \<^verbatim>\<open>retrieve\<close>, \<^verbatim>\<open>generate\<close>. No key of \<^verbatim>\<open>RAGState\<close> has a
  reducer, so the value a node returns for a key replaces the value the state had.\<close>

definition graph_invoke :: "'v env \<Rightarrow> 'v store \<Rightarrow> rag_state \<Rightarrow> error + rag_state" where
  "graph_invoke env st initial_state =
     (case analyze_query env initial_state of
        Inl e \<Rightarrow> Inl e
      | Inr q \<Rightarrow>
          (let s1 = initial_state\<lparr>rs_query := q\<rparr> in
           case retrieve env st s1 of
             Inl e \<Rightarrow> Inl e
           | Inr docs \<Rightarrow>
               (let s2 = s1\<lparr>rs_context := Some docs\<rparr> in
                case generate env s2 of
                  Inl e \<Rightarrow> Inl e
                | Inr a \<Rightarrow> Inr (s2\<lparr>rs_answer := Some a\<rparr>))))"

text \<open>The value \<^verbatim>\<open>query_documents\<close> returns.\<close>

record pipeline_answer =
  answer :: string
  sources :: "(string \<times> (string \<rightharpoonup> pyval)) list"

definition initial_state :: "string \<Rightarrow> int \<Rightarrow> message list option \<Rightarrow> rag_state" where
  "initial_state query user_id messages =
     \<lparr>rs_question = query,
      rs_query = \<lparr>qd_user_id = Some user_id, qd_query = None, qd_section = None\<rparr>,
      rs_context = None,
      rs_messages = Some (case messages of None \<Rightarrow> [] | Some ms \<Rightarrow> ms),
      rs_answer = None\<rparr>"

text \<open>The body of the \<^verbatim>\<open>try\<close> of \<^verbatim>\<open>query_documents\<close>.\<close>

definition run_pipeline ::
  "'v env \<Rightarrow> 'v store \<Rightarrow> string \<Rightarrow> int \<Rightarrow> message list option \<Rightarrow> error + pipeline_answer" where
  "run_pipeline env st query user_id messages =
     (case graph_invoke env st (initial_state query user_id messages) of
        Inl e \<Rightarrow> Inl e
      | Inr final_state \<Rightarrow>
          (case rs_answer final_state of
             None \<Rightarrow> Inl (KeyError ''answer'')
           | Some a \<Rightarrow>
               (case rs_context final_state of
                  None \<Rightarrow> Inl (KeyError ''context'')
                | Some docs \<Rightarrow>
                    Inr \<lparr>answer = a,
                         sources = map (\<lambda>doc. (page_content doc, metadata doc)) docs\<rparr>)))"

text \<open>\<^verbatim>\<open>RAGSystem.query_documents\<close>: the \<^verbatim>\<open>except Exception\<close> branch asks the model
  for \<^verbatim>\<open>f"{mode}: {query}"\<close>, and that call is outside any \<^verbatim>\<open>try\<close>.\<close>

definition query_documents ::
  "'v env \<Rightarrow> 'v store \<Rightarrow> string \<Rightarrow> int \<Rightarrow> string \<Rightarrow> message list option
     \<Rightarrow> error + pipeline_answer" where
  "query_documents env st query user_id mode messages =
     (case run_pipeline env st query user_id messages of
        Inr result \<Rightarrow> Inr result
      | Inl e \<Rightarrow>
          (case llm_ainvoke env (mode @ '': '' @ query) of
             Inl e' \<Rightarrow> Inl e'
           | Inr content \<Rightarrow> Inr \<lparr>answer = content, sources = []\<rparr>))"


section \<open>The chunker\<close>

text \<open>Modelled from the spec: \<^verbatim>\<open>split(text, chunkSize, overlap)\<close> of section 4.1, the
  splitter behind \<^verbatim>\<open>self.text_splitter\<close>. The source only configures it
  (\<^verbatim>\<open>chunk_size=1000\<close>, \<^verbatim>\<open>chunk_overlap=200\<close>, \<^verbatim>\<open>length_function=len\<close>); the class
  that splits, \<^verbatim>\<open>RecursiveCharacterTextSplitter\<close>, is third-party code outside the
  repository. Following the spec's words, the chunker cuts windows of \<open>csize\<close>
  characters, each starting \<open>csize - overlap\<close> characters after its predecessor, until
  what is left fits in one window; the last window may be shorter. A text that fits in one
  window is returned as it is.\<close>

function split_windows :: "nat \<Rightarrow> nat \<Rightarrow> string \<Rightarrow> string list" where
  "split_windows csize overlap text =
     (if length text \<le> csize \<or> csize \<le> overlap then [text]
      else take csize text # split_windows csize overlap (drop (csize - overlap) text))"
  by pat_completeness auto
termination
  by (relation "measure (\<lambda>(csize, overlap, text). length text)") auto

declare split_windows.simps [simp del]

definition chunk_size :: nat where
  "chunk_size = 1000"

definition chunk_overlap :: nat where
  "chunk_overlap = 200"

definition split_text :: "string \<Rightarrow> string list" where
  "split_text text = split_windows chunk_size chunk_overlap text"

text \<open>The reassembly the spec describes: the first chunk, then every later chunk without
  its first \<open>overlap\<close> characters.\<close>

fun reassemble :: "nat \<Rightarrow> string list \<Rightarrow> string" where
  "reassemble overlap [] = []"
| "reassemble overlap (c # cs) = c @ concat (map (drop overlap) cs)"

text \<open>Each chunk after the first begins with the last \<open>overlap\<close> characters of its
  predecessor.\<close>

fun overlapping :: "nat \<Rightarrow> string list \<Rightarrow> bool" where
  "overlapping overlap (a # b # rest) =
     (overlap \<le> length a \<and> overlap \<le> length b
      \<and> take overlap b = drop (length a - overlap) a
      \<and> overlapping overlap (b # rest))"
| "overlapping overlap [a] = True"
| "overlapping overlap [] = True"


section \<open>Quiz submission and progress (server.py, database.py)\<close>

text \<open>The tables the two routes touch, each a list of rows in insertion order. A
  \<^verbatim>\<open>DateTime\<close> is a number; \<open>now\<close> below is \<^verbatim>\<open>datetime.now(timezone.utc)\<close>.\<close>

record quiz =
  quiz_id :: int
  quiz_user_id :: int
  quiz_topic :: string
  quiz_questions :: "pyval list"
  quiz_difficulty :: string

record quiz_result =
  result_id :: int
  result_quiz_id :: int
  result_user_id :: int
  result_score :: rat
  result_total_questions :: nat
  result_answers :: "string \<rightharpoonup> pyval"
  result_completed_at :: nat

record progress =
  progress_id :: int
  progress_user_id :: int
  progress_topic :: string
  mastery_score :: rat
  study_time_minutes :: int
  quizzes_taken :: int
  last_studied :: nat

record database =
  db_quizzes :: "quiz list"
  db_quiz_results :: "quiz_result list"
  db_progress :: "progress list"

text \<open>The primary key given to a new row: one more than the largest in the table.\<close>

definition next_id :: "int list \<Rightarrow> int" where
  "next_id ids = fold max ids 0 + 1"

text \<open>The request bodies \<^verbatim>\<open>QuizSubmit\<close> and \<^verbatim>\<open>ProgressUpdate\<close>.\<close>

record quiz_submit =
  sub_quiz_id :: int
  sub_user_id :: int
  sub_answers :: "string \<rightharpoonup> pyval"

record progress_update =
  pu_user_id :: int
  pu_topic :: string
  pu_study_time_minutes :: int

text \<open>\<^verbatim>\<open>question.get(key)\<close>: a question that is a dictionary answers \<^verbatim>\<open>None\<close> for a
  missing key; any other JSON value has no \<^verbatim>\<open>get\<close>.\<close>

fun py_get :: "pyval \<Rightarrow> string \<Rightarrow> error + pyval" where
  "py_get (PDict d) key = Inr (case map_of d key of None \<Rightarrow> PNone | Some v \<Rightarrow> v)"
| "py_get _ key = Inl AttributeError"

text \<open>The scoring loop of \<^verbatim>\<open>submit_quiz\<close>, from index \<open>idx\<close> on, with the running
  count \<open>correct\<close>.\<close>

fun count_correct :: "(string \<rightharpoonup> pyval) \<Rightarrow> nat \<Rightarrow> pyval list \<Rightarrow> nat \<Rightarrow> error + nat" where
  "count_correct answers idx [] correct = Inr correct"
| "count_correct answers idx (question # rest) correct =
     (let user_answer = dict_get answers (str_nat idx) in
      case py_get question ''correct_answer'' of
        Inl e \<Rightarrow> Inl e
      | Inr expected \<Rightarrow>
          count_correct answers (Suc idx) rest
            (if py_eq user_answer expected then correct + 1 else correct))"

text \<open>Writing through the object that \<^verbatim>\<open>.first()\<close> returned changes the first matching
  row and no other.\<close>

fun update_first :: "('a \<Rightarrow> bool) \<Rightarrow> ('a \<Rightarrow> 'a) \<Rightarrow> 'a list \<Rightarrow> 'a list" where
  "update_first p f [] = []"
| "update_first p f (x # xs) = (if p x then f x # xs else x # update_first p f xs)"

record quiz_response =
  resp_score :: rat
  resp_correct :: nat
  resp_total :: nat
  resp_percentage :: rat

definition progress_row :: "int \<Rightarrow> string \<Rightarrow> progress \<Rightarrow> bool" where
  "progress_row user_id topic p = (progress_user_id p = user_id \<and> progress_topic p = topic)"

text \<open>\<^verbatim>\<open>submit_quiz\<close>. A new \<^verbatim>\<open>Progress\<close> row takes the column defaults for what the
  constructor call leaves out.\<close>

definition submit_quiz ::
  "database \<Rightarrow> nat \<Rightarrow> quiz_submit \<Rightarrow> error + (database \<times> quiz_response)" where
  "submit_quiz db now submission =
     (case find (\<lambda>q. quiz_id q = sub_quiz_id submission) (db_quizzes db) of
        None \<Rightarrow> Inl (HTTPException 404 ''Quiz not found'')
      | Some quiz \<Rightarrow>
          (let total = length (quiz_questions quiz) in
           case count_correct (sub_answers submission) 0 (quiz_questions quiz) 0 of
             Inl e \<Rightarrow> Inl e
           | Inr correct \<Rightarrow>
               (let score = (if total > 0 then of_nat correct / of_nat total else 0);
                    result =
                      \<lparr>result_id = next_id (map result_id (db_quiz_results db)),
                       result_quiz_id = quiz_id quiz,
                       result_user_id = sub_user_id submission,
                       result_score = score,
                       result_total_questions = total,
                       result_answers = sub_answers submission,
                       result_completed_at = now\<rparr>;
                    mine = progress_row (sub_user_id submission) (quiz_topic quiz);
                    rows =
                      (case find mine (db_progress db) of
                         Some existing \<Rightarrow>
                           update_first mine
                             (\<lambda>p. p\<lparr>quizzes_taken := quizzes_taken p + 1,
                                    mastery_score := (mastery_score p + score) / 2,
                                    last_studied := now\<rparr>)
                             (db_progress db)
                       | None \<Rightarrow>
                           db_progress db @
                             [\<lparr>progress_id = next_id (map progress_id (db_progress db)),
                               progress_user_id = sub_user_id submission,
                               progress_topic = quiz_topic quiz,
                               mastery_score = score,
                               study_time_minutes = 0,
                               quizzes_taken = 1,
                               last_studied = now\<rparr>])
                in Inr (db\<lparr>db_quiz_results := db_quiz_results db @ [result],
                           db_progress := rows\<rparr>,
                        \<lparr>resp_score = score, resp_correct = correct, resp_total = total,
                         resp_percentage = score * 100\<rparr>))))"

text \<open>\<^verbatim>\<open>update_progress\<close>: the new table and the row that is returned.\<close>

definition update_progress ::
  "database \<Rightarrow> nat \<Rightarrow> progress_update \<Rightarrow> database \<times> progress" where
  "update_progress db now progress_data =
     (let mine = progress_row (pu_user_id progress_data) (pu_topic progress_data) in
      case find mine (db_progress db) of
        Some existing \<Rightarrow>
          (let updated =
                 existing\<lparr>study_time_minutes :=
                            study_time_minutes existing + pu_study_time_minutes progress_data,
                          last_studied := now\<rparr>
           in (db\<lparr>db_progress := update_first mine (\<lambda>p. updated) (db_progress db)\<rparr>, updated))
      | None \<Rightarrow>
          (let created =
                 \<lparr>progress_id = next_id (map progress_id (db_progress db)),
                  progress_user_id = pu_user_id progress_data,
                  progress_topic = pu_topic progress_data,
                  mastery_score = 0,
                  study_time_minutes = pu_study_time_minutes progress_data,
                  quizzes_taken = 0,
                  last_studied = now\<rparr>
           in (db\<lparr>db_progress := db_progress db @ [created]\<rparr>, created)))"


section \<open>The knowledge graph builder (knowledge\_graph.py)\<close>

text \<open>
  The collaborators of \<^verbatim>\<open>build_graph\<close>, as parameters:
  \<^item> \<open>kg_ainvoke\<close>: \<^verbatim>\<open>self.llm.ainvoke\<close>, giving the response's content;
  \<^item> \<open>json_loads\<close>: \<^verbatim>\<open>json.loads\<close>;
  \<^item> \<open>nx_graph\<close>, \<open>nx_add_node\<close>, \<open>nx_add_edge\<close>: \<^verbatim>\<open>nx.Graph()\<close> and its two methods,
    over a graph type that is a parameter;
  \<^item> \<open>spring_layout\<close>: \<^verbatim>\<open>nx.spring_layout(G, k=2, iterations=50)\<close>, giving for each node
    that has a position its two coordinates.
\<close>

record 'g kg_env =
  kg_ainvoke :: "string \<Rightarrow> error + string"
  json_loads :: "string \<Rightarrow> error + pyval"
  nx_graph :: 'g
  nx_add_node :: "'g \<Rightarrow> pyval \<Rightarrow> error + 'g"
  nx_add_edge :: "'g \<Rightarrow> pyval \<Rightarrow> pyval \<Rightarrow> error + 'g"
  spring_layout :: "'g \<Rightarrow> error + (pyval \<Rightarrow> (rat \<times> rat) option)"

definition quoted :: "string \<Rightarrow> string" where
  "quoted s = dq @ s @ dq"

text \<open>The prompt of \<^verbatim>\<open>build_graph\<close>, an f-string over \<^verbatim>\<open>topic\<close> and
  \<^verbatim>\<open>content[:4000]\<close>.\<close>

definition build_graph_prompt :: "string \<Rightarrow> string \<Rightarrow> string" where
  "build_graph_prompt content topic = concat
     [''Extract key concepts and their relationships from this content about '', topic, ''.'',
      nl, nl,
      ''Content:'', nl,
      take 4000 content, nl, nl,
      ''Return ONLY a valid JSON object with this structure:'', nl,
      ''{'', nl,
      ''  '', quoted ''nodes'', '': ['', nl,
      ''    {'', quoted ''id'', '': '', quoted ''concept1'', '', '',
                 quoted ''label'', '': '', quoted ''Concept Name'', '', '',
                 quoted ''type'', '': '', quoted ''core/supporting/detail'', ''}'', nl,
      ''  ],'', nl,
      ''  '', quoted ''edges'', '': ['', nl,
      ''    {'', quoted ''source'', '': '', quoted ''concept1'', '', '',
                 quoted ''target'', '': '', quoted ''concept2'', '', '',
                 quoted ''relationship'', '': '', quoted ''leads to/requires/part of'', ''}'', nl,
      ''  ]'', nl,
      ''}'', nl, nl,
      ''Extract 10-15 key concepts and their relationships.'', nl, nl,
      ''JSON:'']"

text \<open>\<^verbatim>\<open>re.search(r'\{.*\}', content, re.DOTALL)\<close> and \<^verbatim>\<open>.group()\<close>: with
  \<^verbatim>\<open>DOTALL\<close> the dot matches every character, and the star is greedy, so the match runs
  from the first opening brace to the last closing brace after it; there is no match when
  no closing brace follows the first opening brace.\<close>

definition re_search_braces :: "string \<Rightarrow> string option" where
  "re_search_braces content =
     (let from_open = dropWhile (\<lambda>c. c \<noteq> CHR ''{'') content;
          matched = rev (dropWhile (\<lambda>c. c \<noteq> CHR ''}'') (rev from_open))
      in if matched = [] then None else Some matched)"

fun is_substring :: "string \<Rightarrow> string \<Rightarrow> bool" where
  "is_substring k [] = (k = [])"
| "is_substring k (c # s) = (take (length k) (c # s) = k \<or> is_substring k s)"

text \<open>\<^verbatim>\<open>key in value\<close> for a string \<^verbatim>\<open>key\<close>: a key of a dictionary, an element of a
  list, a substring of a string; any other value is not a container.\<close>

fun py_contains :: "string \<Rightarrow> pyval \<Rightarrow> error + bool" where
  "py_contains key (PDict d) = Inr (map_of d key \<noteq> None)"
| "py_contains key (PList xs) = Inr (list_ex (py_eq (PStr key)) xs)"
| "py_contains key (PStr s) = Inr (is_substring key s)"
| "py_contains key _ = Inl TypeError"

text \<open>\<^verbatim>\<open>value[key]\<close> for a string \<^verbatim>\<open>key\<close>: only a dictionary takes one.\<close>

fun py_getitem :: "pyval \<Rightarrow> string \<Rightarrow> error + pyval" where
  "py_getitem (PDict d) key =
     (case map_of d key of None \<Rightarrow> Inl (KeyError key) | Some v \<Rightarrow> Inr v)"
| "py_getitem _ key = Inl TypeError"

text \<open>\<^verbatim>\<open>value[key] = v\<close> for a string \<^verbatim>\<open>key\<close>: an existing key keeps its place, a new
  key goes last.\<close>

fun py_setitem :: "pyval \<Rightarrow> string \<Rightarrow> pyval \<Rightarrow> error + pyval" where
  "py_setitem (PDict d) key v = Inr (PDict (AList.update key v d))"
| "py_setitem _ key v = Inl TypeError"

text \<open>What \<^verbatim>\<open>for x in value\<close> visits: the elements of a list, the keys of a dictionary,
  the characters of a string.\<close>

fun py_iter :: "pyval \<Rightarrow> error + pyval list" where
  "py_iter (PList xs) = Inr xs"
| "py_iter (PDict d) = Inr (map (\<lambda>(k, v). PStr k) d)"
| "py_iter (PStr s) = Inr (map (\<lambda>c. PStr [c]) s)"
| "py_iter _ = Inl TypeError"

text \<open>The loop \<^verbatim>\<open>for node in graph_data['nodes']: G.add_node(node['id'])\<close>.\<close>

fun add_nodes :: "'g kg_env \<Rightarrow> pyval list \<Rightarrow> 'g \<Rightarrow> error + 'g" where
  "add_nodes env [] G = Inr G"
| "add_nodes env (node # rest) G =
     (case py_getitem node ''id'' of
        Inl e \<Rightarrow> Inl e
      | Inr node_id \<Rightarrow>
          (case nx_add_node env G node_id of
             Inl e \<Rightarrow> Inl e
           | Inr G' \<Rightarrow> add_nodes env rest G'))"

text \<open>The loop \<^verbatim>\<open>for edge in graph_data['edges']: G.add_edge(edge['source'], edge['target'])\<close>.\<close>

fun add_edges :: "'g kg_env \<Rightarrow> pyval list \<Rightarrow> 'g \<Rightarrow> error + 'g" where
  "add_edges env [] G = Inr G"
| "add_edges env (edge # rest) G =
     (case py_getitem edge ''source'' of
        Inl e \<Rightarrow> Inl e
      | Inr source \<Rightarrow>
          (case py_getitem edge ''target'' of
             Inl e \<Rightarrow> Inl e
           | Inr target \<Rightarrow>
               (case nx_add_edge env G source target of
                  Inl e \<Rightarrow> Inl e
                | Inr G' \<Rightarrow> add_edges env rest G')))"

text \<open>The last loop: a node whose id has a position gets \<^verbatim>\<open>x\<close> and \<^verbatim>\<open>y\<close>, the
  coordinates times 300. The source assigns into the node in place; here the loop returns
  the nodes after the assignments.\<close>

fun place_nodes :: "(pyval \<Rightarrow> (rat \<times> rat) option) \<Rightarrow> pyval list \<Rightarrow> error + pyval list" where
  "place_nodes pos [] = Inr []"
| "place_nodes pos (node # rest) =
     (case py_getitem node ''id'' of
        Inl e \<Rightarrow> Inl e
      | Inr node_id \<Rightarrow>
          (case (case pos node_id of
                   None \<Rightarrow> Inr node
                 | Some (px, py) \<Rightarrow>
                     (case py_setitem node ''x'' (PFloat (px * 300)) of
                        Inl e \<Rightarrow> Inl e
                      | Inr node' \<Rightarrow> py_setitem node' ''y'' (PFloat (py * 300)))) of
             Inl e \<Rightarrow> Inl e
           | Inr node' \<Rightarrow>
               (case place_nodes pos rest of
                  Inl e \<Rightarrow> Inl e
                | Inr rest' \<Rightarrow> Inr (node' # rest'))))"

text \<open>The part of the \<^verbatim>\<open>try\<close> after the validation: build the graph, lay it out, attach
  the positions. When \<^verbatim>\<open>graph_data['nodes']\<close> is a list, the nodes after the assignments
  are what \<^verbatim>\<open>graph_data\<close> holds at the end; when it is an empty dictionary or an empty
  string, nothing was visited and \<^verbatim>\<open>graph_data\<close> is unchanged.\<close>

definition layout_graph :: "'g kg_env \<Rightarrow> pyval \<Rightarrow> error + pyval" where
  "layout_graph env graph_data =
     (case py_getitem graph_data ''nodes'' of
        Inl e \<Rightarrow> Inl e
      | Inr nodes \<Rightarrow>
     (case py_iter nodes of
        Inl e \<Rightarrow> Inl e
      | Inr node_seq \<Rightarrow>
     (case add_nodes env node_seq (nx_graph env) of
        Inl e \<Rightarrow> Inl e
      | Inr G1 \<Rightarrow>
     (case py_getitem graph_data ''edges'' of
        Inl e \<Rightarrow> Inl e
      | Inr edges \<Rightarrow>
     (case py_iter edges of
        Inl e \<Rightarrow> Inl e
      | Inr edge_seq \<Rightarrow>
     (case add_edges env edge_seq G1 of
        Inl e \<Rightarrow> Inl e
      | Inr G2 \<Rightarrow>
     (case spring_layout env G2 of
        Inl e \<Rightarrow> Inl e
      | Inr pos \<Rightarrow>
     (case place_nodes pos node_seq of
        Inl e \<Rightarrow> Inl e
      | Inr placed \<Rightarrow>
          (case nodes of
             PList xs \<Rightarrow> py_setitem graph_data ''nodes'' (PList placed)
           | _ \<Rightarrow> Inr graph_data)))))))))"

text \<open>The text handed to \<^verbatim>\<open>json.loads\<close>: the match when there is one, the whole content
  otherwise.\<close>

definition json_candidate :: "string \<Rightarrow> string" where
  "json_candidate content =
     (case re_search_braces content of Some matched \<Rightarrow> matched | None \<Rightarrow> content)"

text \<open>The body of the \<^verbatim>\<open>try\<close> of \<^verbatim>\<open>build_graph\<close>. The \<^verbatim>\<open>or\<close> of the validation
  does not look for \<^verbatim>\<open>'edges'\<close> once \<^verbatim>\<open>'nodes'\<close> is missing.\<close>

definition build_graph_try :: "'g kg_env \<Rightarrow> string \<Rightarrow> error + pyval" where
  "build_graph_try env content =
     (case json_loads env (json_candidate content) of
        Inl e \<Rightarrow> Inl e
      | Inr graph_data \<Rightarrow>
          (case py_contains ''nodes'' graph_data of
             Inl e \<Rightarrow> Inl e
           | Inr has_nodes \<Rightarrow>
               if \<not> has_nodes then Inl ValueError
               else
                 (case py_contains ''edges'' graph_data of
                    Inl e \<Rightarrow> Inl e
                  | Inr has_edges \<Rightarrow>
                      if \<not> has_edges then Inl ValueError
                      else layout_graph env graph_data)))"

definition fallback_graph :: "string \<Rightarrow> pyval" where
  "fallback_graph topic =
     PDict [(''nodes'',
             PList [PDict [(''id'', PStr ''main_topic''), (''label'', PStr topic),
                           (''type'', PStr ''core''), (''x'', PInt 0), (''y'', PInt 0)]]),
            (''edges'', PList [])]"

text \<open>What \<^verbatim>\<open>build_graph\<close> returns once the model has answered: the \<^verbatim>\<open>try\<close> and its
  \<^verbatim>\<open>except Exception\<close>.\<close>

definition graph_of_response :: "'g kg_env \<Rightarrow> string \<Rightarrow> string \<Rightarrow> pyval" where
  "graph_of_response env topic content =
     (case build_graph_try env content of
        Inl e \<Rightarrow> fallback_graph topic
      | Inr graph_data \<Rightarrow> graph_data)"

text \<open>\<^verbatim>\<open>KnowledgeGraphBuilder.build_graph\<close>: the call of the model comes before the
  \<^verbatim>\<open>try\<close>.\<close>

definition build_graph :: "'g kg_env \<Rightarrow> string \<Rightarrow> string \<Rightarrow> error + pyval" where
  "build_graph env content topic =
     (case kg_ainvoke env (build_graph_prompt content topic) of
        Inl e \<Rightarrow> Inl e
      | Inr response \<Rightarrow> Inr (graph_of_response env topic response))"

text \<open>A JSON object that has both keys, in the words of the claim.\<close>

definition has_nodes_and_edges :: "pyval \<Rightarrow> bool" where
  "has_nodes_and_edges v =
     (case v of
        PDict d \<Rightarrow> map_of d ''nodes'' \<noteq> None \<and> map_of d ''edges'' \<noteq> None
      | _ \<Rightarrow> False)"


section \<open>Example inputs\<close>

text \<open>An environment to run the functions on. The loader gives one page per file, whose
  text is the path and whose section is \<^verbatim>\<open>middle\<close>, and cannot read \<^verbatim>\<open>missing.pdf\<close>;
  the splitter keeps the pages as they are; the embedding of a text is its length, and the
  embedding model is out of reach for the text \<^verbatim>\<open>offline.pdf\<close>; the model rewrites every
  question to itself with section \<^verbatim>\<open>middle\<close>.\<close>

definition example_env :: "nat env" where
  "example_env =
     \<lparr>load_pdf = (\<lambda>path. if path = ''missing.pdf'' then Inl DocumentUnreadable
                         else Inr [\<lparr>page_content = path,
                                    metadata = [''section'' \<mapsto> PStr ''middle'']\<rparr>]),
      split_documents = (\<lambda>documents. documents),
      embed = (\<lambda>t. if t = ''offline.pdf'' then Inl ProviderUnavailable else Inr (length t)),
      distance = (\<lambda>a b. \<bar>of_nat a - of_nat b\<bar>),
      llm_structured = (\<lambda>question. Inr \<lparr>search_query = question, search_section = Middle\<rparr>),
      llm_invoke = (\<lambda>messages. Inr ''grounded answer''),
      llm_ainvoke = (\<lambda>prompt. Inr (''direct answer to '' @ prompt))\<rparr>"


text \<open>An environment in which the provider is out of reach: every call of the embedding
  model and of the language model raises.\<close>

definition offline_env :: "nat env" where
  "offline_env =
     \<lparr>load_pdf = (\<lambda>path. Inr [\<lparr>page_content = path, metadata = Map.empty\<rparr>]),
      split_documents = (\<lambda>documents. documents),
      embed = (\<lambda>t. Inl ProviderUnavailable),
      distance = (\<lambda>a b. 0),
      llm_structured = (\<lambda>question. Inl ProviderUnavailable),
      llm_invoke = (\<lambda>messages. Inl ProviderUnavailable),
      llm_ainvoke = (\<lambda>prompt. Inl ProviderUnavailable)\<rparr>"

text \<open>A store built by indexing one file for user 1 and then one file for user 2, and a
  pipeline state whose query dictionary has all three keys.\<close>

definition alice_store :: "nat store" where
  "alice_store =
     (case index_document example_env empty_store ''alice.pdf'' 1 10 of
        Inl e \<Rightarrow> empty_store
      | Inr (st, n) \<Rightarrow> st)"

definition example_store :: "nat store" where
  "example_store =
     (case index_document example_env alice_store ''bob.pdf'' 2 20 of
        Inl e \<Rightarrow> alice_store
      | Inr (st, n) \<Rightarrow> st)"

definition example_state :: rag_state where
  "example_state =
     \<lparr>rs_question = ''What does Bob study?'',
      rs_query = \<lparr>qd_user_id = Some 2, qd_query = Some ''bob'', qd_section = Some Middle\<rparr>,
      rs_context = None,
      rs_messages = Some [],
      rs_answer = None\<rparr>"


text \<open>The count in the words of the spec: the number of indices whose submitted answer is
  the string \<open>cs ! i\<close>, where \<open>cs\<close> lists the correct answers of the questions in order.\<close>

definition exact_matches :: "(string \<rightharpoonup> pyval) \<Rightarrow> string list \<Rightarrow> nat" where
  "exact_matches answers cs =
     length (filter (\<lambda>i. answers (str_nat i) = Some (PStr (cs ! i))) [0..<length cs])"

text \<open>A database with one quiz of two questions on cells, and one progress record of user 7
  on that topic.\<close>

definition example_quiz :: quiz where
  "example_quiz =
     \<lparr>quiz_id = 1, quiz_user_id = 7, quiz_topic = ''cells'',
      quiz_questions =
        [PDict [(''question'', PStr ''Which organelle makes ATP?''),
                (''options'', PList [PStr ''A) Mitochondrion'', PStr ''B) Nucleus'',
                                     PStr ''C) Ribosome'', PStr ''D) Golgi'']),
                (''correct_answer'', PStr ''A''),
                (''explanation'', PStr ''Mitochondria make ATP.'')],
         PDict [(''question'', PStr ''Which organelle holds the DNA?''),
                (''options'', PList [PStr ''A) Mitochondrion'', PStr ''B) Nucleus'',
                                     PStr ''C) Ribosome'', PStr ''D) Golgi'']),
                (''correct_answer'', PStr ''B''),
                (''explanation'', PStr ''The nucleus holds the DNA.'')]],
      quiz_difficulty = ''medium''\<rparr>"

definition example_progress :: progress where
  "example_progress =
     \<lparr>progress_id = 1, progress_user_id = 7, progress_topic = ''cells'',
      mastery_score = 1 / 4, study_time_minutes = 30, quizzes_taken = 3, last_studied = 100\<rparr>"

definition example_db :: database where
  "example_db =
     \<lparr>db_quizzes = [example_quiz], db_quiz_results = [], db_progress = [example_progress]\<rparr>"

definition fresh_db :: database where
  "fresh_db = \<lparr>db_quizzes = [example_quiz], db_quiz_results = [], db_progress = []\<rparr>"

definition example_submission :: quiz_submit where
  "example_submission =
     \<lparr>sub_quiz_id = 1, sub_user_id = 7,
      sub_answers = [''0'' \<mapsto> PStr ''A'', ''1'' \<mapsto> PStr ''C'']\<rparr>"

text \<open>A database whose only quiz has one question, stored without a \<^verbatim>\<open>correct_answer\<close>.\<close>

definition keyless_db :: database where
  "keyless_db =
     \<lparr>db_quizzes =
        [\<lparr>quiz_id = 2, quiz_user_id = 7, quiz_topic = ''cells'',
          quiz_questions = [PDict [(''question'', PStr ''Which organelle makes ATP?'')]],
          quiz_difficulty = ''medium''\<rparr>],
      db_quiz_results = [], db_progress = []\<rparr>"

definition example_update :: progress_update where
  "example_update = \<lparr>pu_user_id = 7, pu_topic = ''cells'', pu_study_time_minutes = 15\<rparr>"


text \<open>An environment for the graph builder: the model answers with an empty JSON object
  inside a sentence, \<^verbatim>\<open>json.loads\<close> reads \<^verbatim>\<open>{}\<close> and nothing else, the graph is the list
  of its nodes, and the layout gives no node a position.\<close>

definition example_kg_env :: "pyval list kg_env" where
  "example_kg_env =
     \<lparr>kg_ainvoke = (\<lambda>prompt. Inr ''Sorry, all I have is {} for this.''),
      json_loads = (\<lambda>s. if s = ''{}'' then Inr (PDict []) else Inl JSONDecodeError),
      nx_graph = [],
      nx_add_node = (\<lambda>G n. Inr (G @ [n])),
      nx_add_edge = (\<lambda>G u v. Inr (G @ [u, v])),
      spring_layout = (\<lambda>G. Inr (\<lambda>n. None))\<rparr>"


section \<open>Properties of the chunker\<close>

lemma split_windows_short: "length text \<le> csize \<Longrightarrow> split_windows csize overlap text = [text]"
  by (simp add: split_windows.simps)

lemma split_windows_long:
  "csize < length text \<Longrightarrow> overlap < csize \<Longrightarrow>
     split_windows csize overlap text =
       take csize text # split_windows csize overlap (drop (csize - overlap) text)"
  by (subst split_windows.simps) simp

lemma split_windows_not_Nil: "split_windows csize overlap text \<noteq> []"
  by (subst split_windows.simps) simp

lemma hd_split_windows:
  "overlap < csize \<Longrightarrow> hd (split_windows csize overlap text) = take csize text"
  by (cases "length text \<le> csize") (simp_all add: split_windows_short split_windows_long)

lemma reassemble_Cons:
  "rest \<noteq> [] \<Longrightarrow> overlap \<le> length (hd rest) \<Longrightarrow>
     reassemble overlap (c # rest) = c @ drop overlap (reassemble overlap rest)"
  by (cases rest) simp_all

lemma reassemble_split_windows:
  "overlap < csize \<Longrightarrow> reassemble overlap (split_windows csize overlap text) = text"
proof (induction csize overlap "text" rule: split_windows.induct)
  case (1 csize overlap t)
  show ?case
  proof (cases "length t \<le> csize")
    case True
    then show ?thesis by (simp add: split_windows_short)
  next
    case False
    let ?rest = "split_windows csize overlap (drop (csize - overlap) t)"
    from False "1.prems" have long: "csize < length t" by simp
    have ih: "reassemble overlap ?rest = drop (csize - overlap) t"
      using "1.IH" False "1.prems" by simp
    have ne: "?rest \<noteq> []" by (rule split_windows_not_Nil)
    have "hd ?rest = take csize (drop (csize - overlap) t)"
      using "1.prems" by (rule hd_split_windows)
    with long "1.prems" have len: "overlap \<le> length (hd ?rest)" by simp
    have "reassemble overlap (take csize t # ?rest)
            = take csize t @ drop overlap (reassemble overlap ?rest)"
      using ne len by (rule reassemble_Cons)
    also have "\<dots> = take csize t @ drop csize t"
      using "1.prems" by (simp add: ih)
    finally show ?thesis
      using long "1.prems" by (simp add: split_windows_long)
  qed
qed

lemma overlapping_Cons:
  "rest \<noteq> [] \<Longrightarrow>
     overlapping overlap (a # rest) =
       (overlap \<le> length a \<and> overlap \<le> length (hd rest)
        \<and> take overlap (hd rest) = drop (length a - overlap) a
        \<and> overlapping overlap rest)"
  by (cases rest) simp_all

lemma overlapping_split_windows:
  "overlap < csize \<Longrightarrow> overlapping overlap (split_windows csize overlap text)"
proof (induction csize overlap "text" rule: split_windows.induct)
  case (1 csize overlap t)
  show ?case
  proof (cases "length t \<le> csize")
    case True
    then show ?thesis by (simp add: split_windows_short)
  next
    case False
    let ?rest = "split_windows csize overlap (drop (csize - overlap) t)"
    from False "1.prems" have long: "csize < length t" by simp
    have ih: "overlapping overlap ?rest"
      using "1.IH" False "1.prems" by simp
    have ne: "?rest \<noteq> []" by (rule split_windows_not_Nil)
    have hd: "hd ?rest = take csize (drop (csize - overlap) t)"
      using "1.prems" by (rule hd_split_windows)
    have eq: "take overlap (hd ?rest) = drop (length (take csize t) - overlap) (take csize t)"
      using long "1.prems" by (simp add: hd drop_take min_def)
    have "overlapping overlap (take csize t # ?rest)"
      using long "1.prems" ih eq by (simp add: overlapping_Cons [OF ne] hd)
    then show ?thesis
      using long "1.prems" by (simp add: split_windows_long)
  qed
qed

text \<open>Claim C6. For every text, the chunks of \<open>split_text\<close> put back together (the first
  chunk, then each later chunk without its first 200 characters) give the text again, and
  each chunk after the first starts with the last 200 characters of the chunk before it.
  This is proved of the chunker as the spec describes it.\<close>

theorem split_text_round_trip:
  "reassemble chunk_overlap (split_text text) = text
   \<and> overlapping chunk_overlap (split_text text)"
  by (simp add: split_text_def chunk_size_def chunk_overlap_def
        reassemble_split_windows overlapping_split_windows)

text \<open>Claim C7. A text shorter than the chunk size of 1000 characters is split into
  exactly one chunk, the text itself. This is proved of the chunker as the spec describes
  it.\<close>

theorem split_text_short:
  "length text < chunk_size \<Longrightarrow> split_text text = [text]"
  by (simp add: split_text_def split_windows_short)

theorem split_text_short_witness:
  "length ''photosynthesis'' < chunk_size \<and> split_text ''photosynthesis'' = [''photosynthesis'']"
proof -
  have short: "length ''photosynthesis'' < chunk_size" by (simp add: chunk_size_def)
  from short split_text_short [OF short] show ?thesis by simp
qed


section \<open>Properties of indexing\<close>

lemma embed_documents_docs:
  "embed_documents env ds = Inr es \<Longrightarrow> map entry_doc es = ds"
  by (induction ds arbitrary: es) (auto split: sum.splits)

lemma embed_documents_Inl:
  "embed_documents env ds = Inl e \<Longrightarrow> \<exists>d\<in>set ds. embed env (page_content d) = Inl e"
  by (induction ds) (auto split: sum.splits)

lemma embed_documents_raises:
  "\<exists>d\<in>set ds. \<exists>e. embed env (page_content d) = Inl e \<Longrightarrow> \<exists>e. embed_documents env ds = Inl e"
proof (induction ds)
  case Nil
  then show ?case by simp
next
  case (Cons d ds)
  show ?case
  proof (cases "embed env (page_content d)")
    case (Inl e)
    then show ?thesis by simp
  next
    case (Inr v)
    with Cons.prems have "\<exists>d\<in>set ds. \<exists>e. embed env (page_content d) = Inl e" by auto
    then obtain e where "embed_documents env ds = Inl e" using Cons.IH by blast
    with Inr show ?thesis by simp
  qed
qed

lemma page_content_tag_chunk [simp]: "page_content (tag_chunk u d c) = page_content c"
  by (simp add: tag_chunk_def)

lemma metadata_tag_chunk_user [simp]: "metadata (tag_chunk u d c) ''user_id'' = Some (PInt u)"
  by (simp add: tag_chunk_def)

lemma metadata_tag_chunk_doc [simp]: "metadata (tag_chunk u d c) ''doc_id'' = Some (PInt d)"
  by (simp add: tag_chunk_def)

lemma index_document_Inr:
  assumes "index_document env st file_path user_id doc_id = Inr (st', n)"
  shows "\<exists>documents es. load_pdf env file_path = Inr documents
           \<and> embed_documents env (map (tag_chunk user_id doc_id) (split_documents env documents)) = Inr es
           \<and> n = length (split_documents env documents)
           \<and> st' = st(collection_name user_id := st (collection_name user_id) @ es)"
  using assms
  by (auto simp: index_document_def add_documents_def Let_def split: sum.splits)

text \<open>Claim C4. When \<open>index_document\<close> succeeds, the number it returns is the number of chunks the
  splitter produced, that many entries were appended to the collection of the owner and to
  no other, they are the splitter's chunks in order, and each carries the owner id and the
  document id in its metadata. When the loader raises, \<open>index_document\<close> raises the same
  error; when the loader succeeds and the embedding model raises for some chunk,
  \<open>index_document\<close> raises an error the embedding model raised. No failure is turned into a
  count.\<close>

theorem index_document_result:
  "(index_document env st file_path user_id doc_id = Inr (st', n) \<longrightarrow>
      (\<exists>documents es.
         load_pdf env file_path = Inr documents
         \<and> n = length (split_documents env documents)
         \<and> length es = n
         \<and> map entry_doc es = map (tag_chunk user_id doc_id) (split_documents env documents)
         \<and> st' = st(collection_name user_id := st (collection_name user_id) @ es)
         \<and> (\<forall>x\<in>set es. metadata (entry_doc x) ''user_id'' = Some (PInt user_id)
                        \<and> metadata (entry_doc x) ''doc_id'' = Some (PInt doc_id))))
   \<and> (load_pdf env file_path = Inl e \<longrightarrow>
        index_document env st file_path user_id doc_id = Inl e)
   \<and> (load_pdf env file_path = Inr documents
        \<and> (\<exists>c\<in>set (split_documents env documents). \<exists>e'. embed env (page_content c) = Inl e') \<longrightarrow>
        (\<exists>e'. index_document env st file_path user_id doc_id = Inl e'
              \<and> (\<exists>c\<in>set (split_documents env documents). embed env (page_content c) = Inl e')))"
proof (intro conjI impI)
  assume ok: "index_document env st file_path user_id doc_id = Inr (st', n)"
  from index_document_Inr [OF ok] obtain documents es where
    load: "load_pdf env file_path = Inr documents" and
    emb: "embed_documents env (map (tag_chunk user_id doc_id) (split_documents env documents)) = Inr es" and
    n: "n = length (split_documents env documents)" and
    st': "st' = st(collection_name user_id := st (collection_name user_id) @ es)"
    by blast
  have docs: "map entry_doc es = map (tag_chunk user_id doc_id) (split_documents env documents)"
    using emb by (rule embed_documents_docs)
  then have len: "length es = n"
    using n by (metis length_map)
  have tagged: "\<forall>x\<in>set es. metadata (entry_doc x) ''user_id'' = Some (PInt user_id)
                          \<and> metadata (entry_doc x) ''doc_id'' = Some (PInt doc_id)"
  proof
    fix x assume "x \<in> set es"
    then have "entry_doc x \<in> set (map entry_doc es)" by simp
    then obtain c where "entry_doc x = tag_chunk user_id doc_id c"
      unfolding docs by auto
    then show "metadata (entry_doc x) ''user_id'' = Some (PInt user_id)
               \<and> metadata (entry_doc x) ''doc_id'' = Some (PInt doc_id)"
      by simp
  qed
  from load n len docs st' tagged
  show "\<exists>documents es.
         load_pdf env file_path = Inr documents
         \<and> n = length (split_documents env documents)
         \<and> length es = n
         \<and> map entry_doc es = map (tag_chunk user_id doc_id) (split_documents env documents)
         \<and> st' = st(collection_name user_id := st (collection_name user_id) @ es)
         \<and> (\<forall>x\<in>set es. metadata (entry_doc x) ''user_id'' = Some (PInt user_id)
                        \<and> metadata (entry_doc x) ''doc_id'' = Some (PInt doc_id))"
    by blast
next
  assume "load_pdf env file_path = Inl e"
  then show "index_document env st file_path user_id doc_id = Inl e"
    by (simp add: index_document_def)
next
  assume a: "load_pdf env file_path = Inr documents
        \<and> (\<exists>c\<in>set (split_documents env documents). \<exists>e'. embed env (page_content c) = Inl e')"
  let ?chunks = "map (tag_chunk user_id doc_id) (split_documents env documents)"
  from a have "\<exists>d\<in>set ?chunks. \<exists>e'. embed env (page_content d) = Inl e'"
    by auto
  then obtain e' where e': "embed_documents env ?chunks = Inl e'"
    using embed_documents_raises by blast
  from embed_documents_Inl [OF e']
  have "\<exists>c\<in>set (split_documents env documents). embed env (page_content c) = Inl e'"
    by auto
  moreover from a e' have "index_document env st file_path user_id doc_id = Inl e'"
    by (simp add: index_document_def add_documents_def Let_def)
  ultimately show "\<exists>e'. index_document env st file_path user_id doc_id = Inl e'
              \<and> (\<exists>c\<in>set (split_documents env documents). embed env (page_content c) = Inl e')"
    by blast
qed

lemma example_index_notes:
  "index_document example_env empty_store ''notes.pdf'' 1 10 =
     Inr (empty_store(collection_name 1 :=
            [\<lparr>entry_doc = tag_chunk 1 10 \<lparr>page_content = ''notes.pdf'',
                                         metadata = [''section'' \<mapsto> PStr ''middle'']\<rparr>,
              entry_vec = length ''notes.pdf''\<rparr>]), 1)"
  by (simp add: index_document_def add_documents_def example_env_def empty_store_def)

theorem index_document_result_witness:
  "(\<exists>st'. index_document example_env empty_store ''notes.pdf'' 1 10 = Inr (st', 1)
         \<and> (\<exists>es. length es = 1
              \<and> st' = empty_store(collection_name 1 := empty_store (collection_name 1) @ es)
              \<and> (\<forall>x\<in>set es. metadata (entry_doc x) ''user_id'' = Some (PInt 1)
                             \<and> metadata (entry_doc x) ''doc_id'' = Some (PInt 10))))
   \<and> index_document example_env empty_store ''missing.pdf'' 1 10 = Inl DocumentUnreadable
   \<and> (\<exists>e'. index_document example_env empty_store ''offline.pdf'' 1 10 = Inl e')"
proof (intro conjI)
  let ?st = "empty_store(collection_name 1 :=
            [\<lparr>entry_doc = tag_chunk 1 10 \<lparr>page_content = ''notes.pdf'',
                                         metadata = [''section'' \<mapsto> PStr ''middle'']\<rparr>,
              entry_vec = length ''notes.pdf''\<rparr>])"
  have ok: "index_document example_env empty_store ''notes.pdf'' 1 10 = Inr (?st, 1)"
    by (rule example_index_notes)
  from index_document_result [of example_env empty_store "''notes.pdf''" 1 10 ?st 1] ok
  have "\<exists>es. length es = 1
          \<and> ?st = empty_store(collection_name 1 := empty_store (collection_name 1) @ es)
          \<and> (\<forall>x\<in>set es. metadata (entry_doc x) ''user_id'' = Some (PInt 1)
                         \<and> metadata (entry_doc x) ''doc_id'' = Some (PInt 10))"
    by blast
  with ok show "\<exists>st'. index_document example_env empty_store ''notes.pdf'' 1 10 = Inr (st', 1)
         \<and> (\<exists>es. length es = 1
              \<and> st' = empty_store(collection_name 1 := empty_store (collection_name 1) @ es)
              \<and> (\<forall>x\<in>set es. metadata (entry_doc x) ''user_id'' = Some (PInt 1)
                             \<and> metadata (entry_doc x) ''doc_id'' = Some (PInt 10)))"
    by blast
next
  have "load_pdf example_env ''missing.pdf'' = Inl DocumentUnreadable"
    by (simp add: example_env_def)
  with index_document_result [of example_env empty_store "''missing.pdf''" 1 10 _ _ DocumentUnreadable]
  show "index_document example_env empty_store ''missing.pdf'' 1 10 = Inl DocumentUnreadable"
    by blast
next
  let ?docs = "[\<lparr>page_content = ''offline.pdf'', metadata = [''section'' \<mapsto> PStr ''middle'']\<rparr>]"
  have load: "load_pdf example_env ''offline.pdf'' = Inr ?docs"
    by (simp add: example_env_def)
  have down: "\<exists>c\<in>set (split_documents example_env ?docs). \<exists>e'. embed example_env (page_content c) = Inl e'"
    by (simp add: example_env_def)
  from index_document_result [of example_env empty_store "''offline.pdf''" 1 10 _ _ _ ?docs] load down
  show "\<exists>e'. index_document example_env empty_store ''offline.pdf'' 1 10 = Inl e'"
    by blast
qed


section \<open>Properties of retrieval\<close>

subsection \<open>Decimal strings and collection names\<close>

lemma lt10_cases:
  "d < 10 \<Longrightarrow> d = 0 \<or> d = 1 \<or> d = 2 \<or> d = 3 \<or> d = 4 \<or> d = 5 \<or> d = 6 \<or> d = 7 \<or> d = 8 \<or> d = (9::nat)"
  by arith

lemma of_char_digit_char: "d < 10 \<Longrightarrow> (of_char (digit_char d) :: nat) = 48 + d"
proof -
  assume "d < 10"
  from lt10_cases [OF this] show ?thesis
    by (elim disjE) (simp_all add: digit_char_def)
qed

lemma digit_char_inj: "a < 10 \<Longrightarrow> b < 10 \<Longrightarrow> digit_char a = digit_char b \<Longrightarrow> a = b"
proof -
  assume a: "a < 10" and b: "b < 10" and e: "digit_char a = digit_char b"
  have "(of_char (digit_char a) :: nat) = of_char (digit_char b)" by (simp only: e)
  then have "48 + a = 48 + b"
    by (simp only: of_char_digit_char [OF a] of_char_digit_char [OF b])
  then show "a = b" by simp
qed

lemma digit_char_not_minus: "d < 10 \<Longrightarrow> digit_char d \<noteq> CHR ''-''"
proof
  assume d: "d < 10" and e: "digit_char d = CHR ''-''"
  have "(of_char (digit_char d) :: nat) = of_char (CHR ''-'')" by (simp only: e)
  then have "48 + d = (45 :: nat)" by (simp add: of_char_digit_char [OF d])
  then show False by simp
qed

lemma str_nat_not_Nil: "str_nat n \<noteq> []"
  by (subst str_nat.simps) simp

lemma str_nat_inj: "str_nat n = str_nat m \<Longrightarrow> n = m"
proof (induction n arbitrary: m rule: str_nat.induct)
  case (1 n)
  show ?case
  proof (cases "n < 10")
    case True
    note n = this
    show ?thesis
    proof (cases "m < 10")
      case True
      with n "1.prems" show ?thesis
        by (simp add: str_nat.simps [of n] str_nat.simps [of m] digit_char_inj)
    next
      case False
      with n "1.prems" str_nat_not_Nil [of "m div 10"] show ?thesis
        by (simp add: str_nat.simps [of n] str_nat.simps [of m])
    qed
  next
    case False
    note n = this
    show ?thesis
    proof (cases "m < 10")
      case True
      with n "1.prems" str_nat_not_Nil [of "n div 10"] show ?thesis
        by (simp add: str_nat.simps [of n] str_nat.simps [of m])
    next
      case False
      with n "1.prems" have e: "str_nat (n div 10) = str_nat (m div 10)"
        and d: "digit_char (n mod 10) = digit_char (m mod 10)"
        by (simp_all add: str_nat.simps [of n] str_nat.simps [of m])
      from "1.IH" [OF n e] have "n div 10 = m div 10" .
      moreover from d have "n mod 10 = m mod 10" by (simp add: digit_char_inj)
      ultimately show ?thesis by (metis div_mult_mod_eq)
    qed
  qed
qed

lemma hd_str_nat_not_minus: "hd (str_nat n) \<noteq> CHR ''-''"
proof (induction n rule: str_nat.induct)
  case (1 n)
  show ?case
  proof (cases "n < 10")
    case True
    then show ?thesis by (simp add: str_nat.simps [of n] digit_char_not_minus)
  next
    case False
    with "1.IH" str_nat_not_Nil [of "n div 10"] show ?thesis
      by (simp add: str_nat.simps [of n])
  qed
qed

lemma minus_str_nat_neq: "CHR ''-'' # str_nat a \<noteq> str_nat b"
proof
  assume "CHR ''-'' # str_nat a = str_nat b"
  then have "hd (str_nat b) = CHR ''-''" by (metis list.sel(1))
  with hd_str_nat_not_minus show False by blast
qed

lemma str_int_inj: "str_int i = str_int j \<Longrightarrow> i = j"
proof -
  assume e: "str_int i = str_int j"
  show "i = j"
  proof (cases "i < 0")
    case True
    note i = this
    show ?thesis
    proof (cases "j < 0")
      case True
      with i e have "str_nat (nat (- i)) = str_nat (nat (- j))" by (simp add: str_int_def)
      then have "nat (- i) = nat (- j)" by (rule str_nat_inj)
      with i True show ?thesis by simp
    next
      case False
      with i e minus_str_nat_neq [of "nat (- i)" "nat j"] show ?thesis by (simp add: str_int_def)
    qed
  next
    case False
    note i = this
    show ?thesis
    proof (cases "j < 0")
      case True
      with i e minus_str_nat_neq [of "nat (- j)" "nat i"] show ?thesis by (simp add: str_int_def)
    next
      case False
      with i e have "str_nat (nat i) = str_nat (nat j)" by (simp add: str_int_def)
      then have "nat i = nat j" by (rule str_nat_inj)
      with i False show ?thesis by simp
    qed
  qed
qed

lemma collection_name_inj: "collection_name a = collection_name b \<Longrightarrow> a = b"
  by (simp add: collection_name_def str_int_inj)

subsection \<open>Every stored chunk carries the owner of its collection\<close>

lemma reachable_owner:
  "reachable env st \<Longrightarrow> x \<in> set (st (collection_name u)) \<Longrightarrow>
     metadata (entry_doc x) ''user_id'' = Some (PInt u)"
proof (induction arbitrary: x u rule: reachable.induct)
  case reachable_empty
  then show ?case by (simp add: empty_store_def)
next
  case (reachable_index st file_path user_id doc_id st' n)
  from index_document_Inr [OF reachable_index.hyps(2)] obtain documents es where
    emb: "embed_documents env (map (tag_chunk user_id doc_id) (split_documents env documents)) = Inr es" and
    st': "st' = st(collection_name user_id := st (collection_name user_id) @ es)"
    by blast
  have docs: "map entry_doc es = map (tag_chunk user_id doc_id) (split_documents env documents)"
    using emb by (rule embed_documents_docs)
  show ?case
  proof (cases "collection_name u = collection_name user_id")
    case False
    with reachable_index.prems st' have "x \<in> set (st (collection_name u))" by simp
    then show ?thesis by (rule reachable_index.IH)
  next
    case True
    then have u: "u = user_id" by (rule collection_name_inj)
    from reachable_index.prems st' u
    have "x \<in> set (st (collection_name u)) \<or> x \<in> set es" by auto
    then show ?thesis
    proof
      assume "x \<in> set (st (collection_name u))"
      then show ?thesis by (rule reachable_index.IH)
    next
      assume "x \<in> set es"
      then have "entry_doc x \<in> set (map entry_doc es)" by simp
      then obtain c where "entry_doc x = tag_chunk user_id doc_id c"
        unfolding docs by auto
      with u show ?thesis by simp
    qed
  qed
qed

lemma reachable_step:
  "reachable env st \<Longrightarrow>
     reachable env (case index_document env st file_path user_id doc_id of
                      Inl e \<Rightarrow> st | Inr (st', n) \<Rightarrow> st')"
  by (cases "index_document env st file_path user_id doc_id")
     (auto intro: reachable_index)

subsection \<open>What a search returns\<close>

lemma filter_entries_Inr:
  "filter_entries p xs = Inr ys \<Longrightarrow>
     set ys \<subseteq> set xs \<and> length ys \<le> length xs \<and> (\<forall>y\<in>set ys. p (entry_doc y) = Inr True)"
proof (induction xs arbitrary: ys)
  case Nil
  then show ?case by simp
next
  case (Cons x xs)
  from Cons.prems obtain keep zs where
    keep: "p (entry_doc x) = Inr keep" and
    zs: "filter_entries p xs = Inr zs" and
    ys: "ys = (if keep then x # zs else zs)"
    by (auto split: sum.splits)
  from Cons.IH [OF zs] keep ys show ?case by auto
qed

lemma filter_entries_none:
  "\<forall>x\<in>set xs. p (entry_doc x) = Inr False \<Longrightarrow> filter_entries p xs = Inr []"
  by (induction xs) simp_all

lemma similarity_search_Inr:
  assumes "similarity_search env collection query k p = Inr docs"
  shows "set docs \<subseteq> entry_doc ` set collection \<and> length docs \<le> k
         \<and> (\<forall>d\<in>set docs. p d = Inr True)"
proof -
  from assms obtain qv candidates where
    cand: "filter_entries p collection = Inr candidates" and
    docs: "docs = map entry_doc
             (take k (sort_key (\<lambda>x. distance env qv (entry_vec x)) candidates))"
    by (auto simp: similarity_search_def split: sum.splits)
  let ?ranked = "sort_key (\<lambda>x. distance env qv (entry_vec x)) candidates"
  have "set (take k ?ranked) \<subseteq> set candidates"
    using set_take_subset [of k ?ranked] by simp
  with filter_entries_Inr [OF cand] docs show ?thesis by auto
qed

lemma retrieve_Inr:
  assumes "retrieve env st state = Inr docs"
  shows "\<exists>user_id. qd_user_id (rs_query state) = Some user_id
           \<and> set docs \<subseteq> entry_doc ` set (get_vectorstore st user_id)
           \<and> length docs \<le> 5
           \<and> (\<forall>d\<in>set docs. section_filter (rs_query state) d = Inr True)"
proof -
  from assms obtain user_id query where
    u: "qd_user_id (rs_query state) = Some user_id" and
    s: "similarity_search env (get_vectorstore st user_id) query 5
          (section_filter (rs_query state)) = Inr docs"
    by (auto simp: retrieve_def Let_def split: option.splits)
  from similarity_search_Inr [OF s] u show ?thesis by blast
qed

lemma retrieve_length: "retrieve env st state = Inr docs \<Longrightarrow> length docs \<le> 5"
  using retrieve_Inr by blast

lemma retrieve_no_match:
  assumes "qd_user_id (rs_query state) = Some user_id"
    and "qd_query (rs_query state) = Some query"
    and "embed env query = Inr qv"
    and "\<forall>x\<in>set (get_vectorstore st user_id).
           section_filter (rs_query state) (entry_doc x) = Inr False"
  shows "retrieve env st state = Inr []"
  using assms
  by (simp add: retrieve_def Let_def similarity_search_def filter_entries_none)

text \<open>Claim C2. In a store built by indexing, a retrieval for owner \<open>B\<close> returns only documents
  of the collection of \<open>B\<close>, each carrying the owner id \<open>B\<close>; for any other owner \<open>A\<close>, no
  document stored in the collection of \<open>A\<close> and no chunk tagged by \<open>index_document\<close> for \<open>A\<close>
  is among them, whatever the texts are.\<close>

theorem retrieve_owner_isolation:
  assumes "reachable env st"
    and "A \<noteq> B"
    and "qd_user_id (rs_query state) = Some B"
    and "retrieve env st state = Inr docs"
  shows "set docs \<subseteq> entry_doc ` set (get_vectorstore st B)
         \<and> (\<forall>d\<in>set docs. metadata d ''user_id'' = Some (PInt B))
         \<and> (\<forall>x\<in>set (get_vectorstore st A). entry_doc x \<notin> set docs)
         \<and> (\<forall>doc_id chunk. tag_chunk A doc_id chunk \<notin> set docs)"
proof -
  from retrieve_Inr [OF assms(4)] assms(3)
  have sub: "set docs \<subseteq> entry_doc ` set (get_vectorstore st B)" by auto
  have own: "\<forall>d\<in>set docs. metadata d ''user_id'' = Some (PInt B)"
  proof
    fix d assume "d \<in> set docs"
    with sub obtain x where x: "x \<in> set (st (collection_name B))" and d: "d = entry_doc x"
      by (auto simp: get_vectorstore_def)
    from reachable_owner [OF assms(1) x] d
    show "metadata d ''user_id'' = Some (PInt B)" by simp
  qed
  have other: "\<forall>x\<in>set (get_vectorstore st A). entry_doc x \<notin> set docs"
  proof
    fix x assume "x \<in> set (get_vectorstore st A)"
    then have "x \<in> set (st (collection_name A))" by (simp add: get_vectorstore_def)
    from reachable_owner [OF assms(1) this]
    have "metadata (entry_doc x) ''user_id'' = Some (PInt A)" .
    with own assms(2) show "entry_doc x \<notin> set docs" by auto
  qed
  have tagged: "\<forall>doc_id chunk. tag_chunk A doc_id chunk \<notin> set docs"
  proof (intro allI notI)
    fix doc_id chunk assume "tag_chunk A doc_id chunk \<in> set docs"
    with own have "metadata (tag_chunk A doc_id chunk) ''user_id'' = Some (PInt B)" by blast
    with assms(2) show False by simp
  qed
  from sub own other tagged show ?thesis by blast
qed

lemma collection_name_1: "collection_name 1 = ''user_1_docs''"
  by (simp add: collection_name_def str_int_def str_nat.simps digit_char_def)

lemma collection_name_2: "collection_name 2 = ''user_2_docs''"
  by (simp add: collection_name_def str_int_def str_nat.simps digit_char_def)

lemma example_store_eq:
  "example_store =
     (\<lambda>name. [])
       (''user_1_docs'' :=
          [\<lparr>entry_doc = tag_chunk 1 10 \<lparr>page_content = ''alice.pdf'',
                                       metadata = [''section'' \<mapsto> PStr ''middle'']\<rparr>,
            entry_vec = length ''alice.pdf''\<rparr>],
        ''user_2_docs'' :=
          [\<lparr>entry_doc = tag_chunk 2 20 \<lparr>page_content = ''bob.pdf'',
                                       metadata = [''section'' \<mapsto> PStr ''middle'']\<rparr>,
            entry_vec = length ''bob.pdf''\<rparr>])"
  by (simp add: example_store_def alice_store_def index_document_def add_documents_def
        example_env_def empty_store_def collection_name_1 collection_name_2)

lemma reachable_example_store: "reachable example_env example_store"
  unfolding example_store_def alice_store_def
  by (intro reachable_step reachable_empty)

lemma example_retrieve:
  "retrieve example_env example_store example_state =
     Inr [tag_chunk 2 20 \<lparr>page_content = ''bob.pdf'',
                          metadata = [''section'' \<mapsto> PStr ''middle'']\<rparr>]"
  by (simp add: retrieve_def example_state_def get_vectorstore_def collection_name_2
        example_store_eq similarity_search_def section_filter_def dict_get_def
        tag_chunk_def example_env_def)

theorem retrieve_owner_isolation_witness:
  "reachable example_env example_store
   \<and> (1::int) \<noteq> 2
   \<and> qd_user_id (rs_query example_state) = Some 2
   \<and> retrieve example_env example_store example_state =
       Inr [tag_chunk 2 20 \<lparr>page_content = ''bob.pdf'',
                            metadata = [''section'' \<mapsto> PStr ''middle'']\<rparr>]
   \<and> get_vectorstore example_store 1 =
       [\<lparr>entry_doc = tag_chunk 1 10 \<lparr>page_content = ''alice.pdf'',
                                     metadata = [''section'' \<mapsto> PStr ''middle'']\<rparr>,
         entry_vec = length ''alice.pdf''\<rparr>]
   \<and> tag_chunk 1 10 \<lparr>page_content = ''alice.pdf'',
                       metadata = [''section'' \<mapsto> PStr ''middle'']\<rparr>
       \<notin> set [tag_chunk 2 20 \<lparr>page_content = ''bob.pdf'',
                                metadata = [''section'' \<mapsto> PStr ''middle'']\<rparr>]"
proof -
  have u: "qd_user_id (rs_query example_state) = Some 2"
    by (simp add: example_state_def)
  have ne: "(1::int) \<noteq> 2" by simp
  have a: "get_vectorstore example_store 1 =
       [\<lparr>entry_doc = tag_chunk 1 10 \<lparr>page_content = ''alice.pdf'',
                                     metadata = [''section'' \<mapsto> PStr ''middle'']\<rparr>,
         entry_vec = length ''alice.pdf''\<rparr>]"
    by (simp add: get_vectorstore_def collection_name_1 example_store_eq)
  from retrieve_owner_isolation [OF reachable_example_store ne u example_retrieve]
  have "tag_chunk 1 10 \<lparr>page_content = ''alice.pdf'',
                       metadata = [''section'' \<mapsto> PStr ''middle'']\<rparr>
       \<notin> set [tag_chunk 2 20 \<lparr>page_content = ''bob.pdf'',
                                metadata = [''section'' \<mapsto> PStr ''middle'']\<rparr>]"
    by blast
  with reachable_example_store ne u example_retrieve a
  show ?thesis by blast
qed


section \<open>Properties of the query pipeline\<close>

text \<open>The query dictionary the rewrite stage returns has no \<^verbatim>\<open>user_id\<close>, and it replaces the
  one the initial state had, so the retrieval stage raises whenever the rewrite succeeds.\<close>

lemma retrieve_after_analyze:
  "analyze_query env s0 = Inr q \<Longrightarrow> retrieve env st (s0\<lparr>rs_query := q\<rparr>) = Inl (KeyError ''user_id'')"
  by (auto simp: analyze_query_def search_dict_def retrieve_def split: sum.splits)

lemma graph_invoke_raises:
  "graph_invoke env st s0 =
     (case llm_structured env (rs_question s0) of
        Inl e \<Rightarrow> Inl e
      | Inr structured \<Rightarrow> Inl (KeyError ''user_id''))"
proof (cases "analyze_query env s0")
  case (Inl e)
  then show ?thesis
    by (auto simp: graph_invoke_def analyze_query_def split: sum.splits)
next
  case (Inr q)
  from retrieve_after_analyze [OF Inr] Inr show ?thesis
    by (auto simp: graph_invoke_def analyze_query_def Let_def split: sum.splits)
qed

lemma run_pipeline_raises:
  "run_pipeline env st query user_id messages =
     (case llm_structured env query of
        Inl e \<Rightarrow> Inl e
      | Inr structured \<Rightarrow> Inl (KeyError ''user_id''))"
  by (simp add: run_pipeline_def graph_invoke_raises initial_state_def split: sum.splits)

lemma query_documents_eq:
  "query_documents env st query user_id mode messages =
     (case llm_ainvoke env (mode @ '': '' @ query) of
        Inl e \<Rightarrow> Inl e
      | Inr content \<Rightarrow> Inr \<lparr>answer = content, sources = []\<rparr>)"
  by (simp add: query_documents_def run_pipeline_raises split: sum.splits)

text \<open>Claim C3. The code at an input of the claim: user 3 has no chunk in the store, so no
  stored chunk matches the section filter. The rewrite succeeds, the retrieval stage raises
  \<^verbatim>\<open>KeyError('user_id')\<close> instead of returning the empty sequence, the generation stage does
  not run, and the answer returned is the one of the fallback.\<close>

theorem pipeline_stops_at_retrieve:
  "analyze_query example_env (initial_state ''What is a cell?'' 3 None) =
     Inr \<lparr>qd_user_id = None, qd_query = Some ''What is a cell?'', qd_section = Some Middle\<rparr>
   \<and> retrieve example_env example_store
       ((initial_state ''What is a cell?'' 3 None)
          \<lparr>rs_query := \<lparr>qd_user_id = None, qd_query = Some ''What is a cell?'',
                         qd_section = Some Middle\<rparr>\<rparr>) = Inl (KeyError ''user_id'')
   \<and> run_pipeline example_env example_store ''What is a cell?'' 3 None = Inl (KeyError ''user_id'')
   \<and> query_documents example_env example_store ''What is a cell?'' 3 ''Quick Learner'' None =
       Inr \<lparr>answer = ''direct answer to Quick Learner: What is a cell?'', sources = []\<rparr>"
  by (simp add: analyze_query_def search_dict_def initial_state_def retrieve_def
        run_pipeline_def graph_invoke_def query_documents_def example_env_def)

text \<open>Claim C1, as stated, fails: with the provider out of reach the rewrite stage raises and
  so does the fallback call, and \<open>query_documents\<close> raises.\<close>

theorem query_documents_raises:
  "query_documents offline_env empty_store ''What is a cell?'' 1 ''Quick Learner'' None =
     Inl ProviderUnavailable"
  by (simp add: query_documents_def run_pipeline_def graph_invoke_def analyze_query_def
        initial_state_def offline_env_def)

text \<open>A state the graph returns has an answer and a context, so the subscripts after
  \<^verbatim>\<open>graph.invoke\<close> do not raise: the body of the \<^verbatim>\<open>try\<close> raises exactly when a stage
  does.\<close>

lemma graph_invoke_Inr:
  assumes "graph_invoke env st s0 = Inr s"
  shows "\<exists>a docs. rs_answer s = Some a \<and> rs_context s = Some docs"
  using assms by (auto simp: graph_invoke_def Let_def split: sum.splits)

text \<open>Claim C1, amended. If a stage of the pipeline raises and the fallback call of the model
  returns a completion, \<open>query_documents\<close> returns that completion of the question prefixed
  with the mode, with no sources. The fallback call is not guarded: \<open>query_documents\<close> raises
  an error exactly when a stage of the pipeline raises and the fallback call raises that
  error.\<close>

theorem query_documents_fallback:
  "(graph_invoke env st (initial_state query user_id messages) = Inl e
      \<and> llm_ainvoke env (mode @ '': '' @ query) = Inr content \<longrightarrow>
      query_documents env st query user_id mode messages =
        Inr \<lparr>answer = content, sources = []\<rparr>)
   \<and> ((query_documents env st query user_id mode messages = Inl e') =
        ((\<exists>e. graph_invoke env st (initial_state query user_id messages) = Inl e)
         \<and> llm_ainvoke env (mode @ '': '' @ query) = Inl e'))"
proof (intro conjI impI)
  assume "graph_invoke env st (initial_state query user_id messages) = Inl e
    \<and> llm_ainvoke env (mode @ '': '' @ query) = Inr content"
  then show "query_documents env st query user_id mode messages =
      Inr \<lparr>answer = content, sources = []\<rparr>"
    by (simp add: query_documents_def run_pipeline_def)
next
  show "(query_documents env st query user_id mode messages = Inl e') =
        ((\<exists>e. graph_invoke env st (initial_state query user_id messages) = Inl e)
         \<and> llm_ainvoke env (mode @ '': '' @ query) = Inl e')"
  proof (cases "graph_invoke env st (initial_state query user_id messages)")
    case (Inl e0)
    then show ?thesis
      by (cases "llm_ainvoke env (mode @ '': '' @ query)")
        (simp_all add: query_documents_def run_pipeline_def)
  next
    case (Inr s)
    from graph_invoke_Inr [OF Inr] obtain a docs where
      "rs_answer s = Some a" and "rs_context s = Some docs" by blast
    with Inr show ?thesis
      by (simp add: query_documents_def run_pipeline_def)
  qed
qed

theorem query_documents_fallback_witness:
  "graph_invoke offline_env empty_store (initial_state ''What is a cell?'' 1 None) =
     Inl ProviderUnavailable
   \<and> llm_ainvoke example_env (''Quick Learner'' @ '': '' @ ''What is a cell?'') =
       Inr ''direct answer to Quick Learner: What is a cell?''
   \<and> graph_invoke example_env empty_store (initial_state ''What is a cell?'' 1 None) =
       Inl (KeyError ''user_id'')
   \<and> query_documents example_env empty_store ''What is a cell?'' 1 ''Quick Learner'' None =
       Inr \<lparr>answer = ''direct answer to Quick Learner: What is a cell?'', sources = []\<rparr>
   \<and> llm_ainvoke offline_env (''Quick Learner'' @ '': '' @ ''What is a cell?'') =
       Inl ProviderUnavailable
   \<and> query_documents offline_env empty_store ''What is a cell?'' 1 ''Quick Learner'' None =
       Inl ProviderUnavailable"
proof -
  have g0: "graph_invoke offline_env empty_store (initial_state ''What is a cell?'' 1 None) =
     Inl ProviderUnavailable"
    by (simp add: graph_invoke_def analyze_query_def initial_state_def offline_env_def)
  have g: "graph_invoke example_env empty_store (initial_state ''What is a cell?'' 1 None) =
       Inl (KeyError ''user_id'')"
    by (simp add: graph_invoke_def analyze_query_def search_dict_def retrieve_def
          initial_state_def example_env_def)
  have a: "llm_ainvoke example_env (''Quick Learner'' @ '': '' @ ''What is a cell?'') =
       Inr ''direct answer to Quick Learner: What is a cell?''"
    by (simp add: example_env_def)
  have q: "query_documents example_env empty_store ''What is a cell?'' 1 ''Quick Learner'' None =
       Inr \<lparr>answer = ''direct answer to Quick Learner: What is a cell?'', sources = []\<rparr>"
    using query_documents_fallback
      [of example_env empty_store "''What is a cell?''" 1 None "KeyError ''user_id''"
          "''Quick Learner''" "''direct answer to Quick Learner: What is a cell?''"]
      g a by blast
  have f: "llm_ainvoke offline_env (''Quick Learner'' @ '': '' @ ''What is a cell?'') =
       Inl ProviderUnavailable"
    by (simp add: offline_env_def)
  have r: "query_documents offline_env empty_store ''What is a cell?'' 1 ''Quick Learner'' None =
       Inl ProviderUnavailable"
    using query_documents_fallback
      [of offline_env empty_store "''What is a cell?''" 1 None _ "''Quick Learner''" _
          ProviderUnavailable]
      g0 f by blast
  from g0 a g q f r show ?thesis by blast
qed


section \<open>Properties of quiz submission and progress\<close>

lemma py_eq_PStr: "py_eq x (PStr s) = (x = PStr s)"
  by (cases x) auto

lemma answer_matches:
  "py_eq (dict_get answers k) (PStr c) = (answers k = Some (PStr c))"
  by (auto simp: py_eq_PStr dict_get_def split: option.splits)

lemma upt_0_Suc: "[0..<Suc n] = 0 # map Suc [0..<n]"
  by (simp add: upt_conv_Cons map_Suc_upt del: upt_Suc)

lemma length_filter_map: "length (filter P (map f xs)) = length (filter (\<lambda>x. P (f x)) xs)"
  by (induction xs) simp_all

lemma count_correct_strings:
  "list_all2 (\<lambda>question c. py_get question ''correct_answer'' = Inr (PStr c)) qs cs \<Longrightarrow>
     count_correct answers idx qs correct =
       Inr (correct
            + length (filter (\<lambda>i. answers (str_nat (idx + i)) = Some (PStr (cs ! i)))
                        [0..<length cs]))"
proof (induction qs cs arbitrary: idx correct rule: list_all2_induct)
  case Nil
  then show ?case by simp
next
  case (Cons q qs c cs)
  have step: "length (filter (\<lambda>i. answers (str_nat (idx + i)) = Some (PStr ((c # cs) ! i)))
                         [0..<Suc (length cs)])
               = (if answers (str_nat idx) = Some (PStr c) then 1 else 0)
                 + length (filter (\<lambda>i. answers (str_nat (Suc idx + i)) = Some (PStr (cs ! i)))
                             [0..<length cs])"
    by (simp add: upt_0_Suc length_filter_map comp_def del: upt_Suc)
  show ?case
    using Cons.hyps(1) Cons.IH [of "Suc idx"]
    by (simp add: answer_matches step del: upt_Suc)
qed

lemma count_correct_exact:
  "list_all2 (\<lambda>question c. py_get question ''correct_answer'' = Inr (PStr c)) qs cs \<Longrightarrow>
     count_correct answers 0 qs 0 = Inr (exact_matches answers cs)"
  using count_correct_strings [of qs cs answers 0 0] by (simp add: exact_matches_def)

lemma exact_matches_le: "exact_matches answers cs \<le> length cs"
  unfolding exact_matches_def
  using length_filter_le [of _ "[0..<length cs]"] by simp

text \<open>Claim C5, amended. For a stored quiz of \<open>N \<ge> 1\<close> questions, each with a string under
  \<^verbatim>\<open>correct_answer\<close>, and any answers map, the submission succeeds and its score is the number
  of indices whose submitted answer is exactly that string, divided by \<open>N\<close>; the score is 0
  when no index matches and 1 when all \<open>N\<close> match.\<close>

theorem submit_quiz_score:
  assumes "find (\<lambda>q. quiz_id q = sub_quiz_id submission) (db_quizzes db) = Some quiz"
    and "list_all2 (\<lambda>question c. py_get question ''correct_answer'' = Inr (PStr c))
           (quiz_questions quiz) cs"
    and "1 \<le> length (quiz_questions quiz)"
  shows "\<exists>db' resp. submit_quiz db now submission = Inr (db', resp)
           \<and> resp_correct resp = exact_matches (sub_answers submission) cs
           \<and> resp_total resp = length (quiz_questions quiz)
           \<and> resp_score resp =
               of_nat (exact_matches (sub_answers submission) cs)
                 / of_nat (length (quiz_questions quiz))
           \<and> (exact_matches (sub_answers submission) cs = 0 \<longrightarrow> resp_score resp = 0)
           \<and> (exact_matches (sub_answers submission) cs = length (quiz_questions quiz)
                \<longrightarrow> resp_score resp = 1)"
proof -
  let ?m = "exact_matches (sub_answers submission) cs"
  let ?N = "length (quiz_questions quiz)"
  have cnt: "count_correct (sub_answers submission) 0 (quiz_questions quiz) 0 = Inr ?m"
    using assms(2) by (rule count_correct_exact)
  have pos: "0 < ?N" using assms(3) by arith
  from assms(1) cnt pos obtain db' resp where
    r: "submit_quiz db now submission = Inr (db', resp)" and
    c: "resp_correct resp = ?m" and t: "resp_total resp = ?N" and
    s: "resp_score resp = of_nat ?m / of_nat ?N"
    by (simp add: submit_quiz_def Let_def)
  have zero: "?m = 0 \<longrightarrow> resp_score resp = 0" using s by simp
  have full: "?m = ?N \<longrightarrow> resp_score resp = 1" using s pos by simp
  show ?thesis
    by (intro exI [of _ db'] exI [of _ resp] conjI) (fact r c t s zero full)+
qed

lemma example_find_quiz:
  "find (\<lambda>q. quiz_id q = sub_quiz_id example_submission) (db_quizzes example_db) = Some example_quiz"
  by (simp add: example_db_def example_quiz_def example_submission_def)

theorem submit_quiz_score_witness:
  "find (\<lambda>q. quiz_id q = sub_quiz_id example_submission) (db_quizzes example_db) = Some example_quiz
   \<and> list_all2 (\<lambda>question c. py_get question ''correct_answer'' = Inr (PStr c))
        (quiz_questions example_quiz) [''A'', ''B'']
   \<and> 1 \<le> length (quiz_questions example_quiz)
   \<and> exact_matches (sub_answers example_submission) [''A'', ''B''] = 1
   \<and> (\<exists>db' resp. submit_quiz example_db 200 example_submission = Inr (db', resp)
         \<and> resp_correct resp = 1 \<and> resp_total resp = 2 \<and> resp_score resp = 1 / 2)"
proof -
  have q: "list_all2 (\<lambda>question c. py_get question ''correct_answer'' = Inr (PStr c))
        (quiz_questions example_quiz) [''A'', ''B'']"
    by (simp add: example_quiz_def)
  have n: "1 \<le> length (quiz_questions example_quiz)"
    by (simp add: example_quiz_def)
  have len: "length (quiz_questions example_quiz) = 2"
    by (simp add: example_quiz_def)
  have m: "exact_matches (sub_answers example_submission) [''A'', ''B''] = 1"
    by (simp add: exact_matches_def example_submission_def str_nat.simps digit_char_def
          upt_conv_Cons)
  from submit_quiz_score [OF example_find_quiz q n, of 200]
  have "\<exists>db' resp. submit_quiz example_db 200 example_submission = Inr (db', resp)
         \<and> resp_correct resp = 1 \<and> resp_total resp = 2 \<and> resp_score resp = 1 / 2"
    by (simp add: m len)
  with example_find_quiz q n m show ?thesis by blast
qed

text \<open>Claim C5, as stated, fails: a question stored without a \<^verbatim>\<open>correct_answer\<close> and
  left unanswered is counted as correct, since both sides of the comparison are
  \<^verbatim>\<open>None\<close>. No submitted answer matches anything, and the score is 1.\<close>

theorem submit_quiz_missing_key:
  "map_sum id snd
     (submit_quiz keyless_db 200 \<lparr>sub_quiz_id = 2, sub_user_id = 7, sub_answers = Map.empty\<rparr>) =
     Inr \<lparr>resp_score = 1, resp_correct = 1, resp_total = 1, resp_percentage = 100\<rparr>"
  by (simp add: submit_quiz_def keyless_db_def dict_get_def Let_def)

subsection \<open>The progress record after a submission\<close>

lemma find_update_first:
  "(\<And>x. p x \<Longrightarrow> p (f x)) \<Longrightarrow> find p (update_first p f xs) = map_option f (find p xs)"
  by (induction xs) simp_all

lemma length_update_first [simp]: "length (update_first p f xs) = length xs"
  by (induction xs) simp_all

lemma find_append_new: "find p xs = None \<Longrightarrow> p y \<Longrightarrow> find p (xs @ [y]) = Some y"
  by (induction xs) (simp_all split: if_splits)

lemma find_Some_holds: "find p xs = Some x \<Longrightarrow> p x"
  by (induction xs) (auto split: if_splits)

lemma submit_quiz_Inr:
  assumes "submit_quiz db now submission = Inr (db', resp)"
    and "find (\<lambda>q. quiz_id q = sub_quiz_id submission) (db_quizzes db) = Some quiz"
  shows "db_progress db' =
           (case find (progress_row (sub_user_id submission) (quiz_topic quiz)) (db_progress db) of
              Some existing \<Rightarrow>
                update_first (progress_row (sub_user_id submission) (quiz_topic quiz))
                  (\<lambda>p. p\<lparr>quizzes_taken := quizzes_taken p + 1,
                         mastery_score := (mastery_score p + resp_score resp) / 2,
                         last_studied := now\<rparr>)
                  (db_progress db)
            | None \<Rightarrow>
                db_progress db @
                  [\<lparr>progress_id = next_id (map progress_id (db_progress db)),
                    progress_user_id = sub_user_id submission,
                    progress_topic = quiz_topic quiz,
                    mastery_score = resp_score resp,
                    study_time_minutes = 0,
                    quizzes_taken = 1,
                    last_studied = now\<rparr>])"
  using assms
  by (auto simp: submit_quiz_def Let_def split: sum.splits option.splits)

text \<open>Claim C8. After a submission with score \<open>s\<close>: if the user had a progress record on the
  topic of the quiz, with mastery \<open>m\<close>, the record (the first one of that user and topic) has
  mastery \<open>(m + s) / 2\<close> and one more quiz taken, and no row was added; otherwise a record was
  added with mastery \<open>s\<close> and one quiz taken.\<close>

theorem submit_quiz_progress:
  assumes "submit_quiz db now submission = Inr (db', resp)"
    and "find (\<lambda>q. quiz_id q = sub_quiz_id submission) (db_quizzes db) = Some quiz"
  shows "(\<forall>p. find (progress_row (sub_user_id submission) (quiz_topic quiz)) (db_progress db) = Some p
            \<longrightarrow> (\<exists>p'. find (progress_row (sub_user_id submission) (quiz_topic quiz))
                         (db_progress db') = Some p'
                     \<and> mastery_score p' = (mastery_score p + resp_score resp) / 2
                     \<and> quizzes_taken p' = quizzes_taken p + 1
                     \<and> length (db_progress db') = length (db_progress db)))
         \<and> (find (progress_row (sub_user_id submission) (quiz_topic quiz)) (db_progress db) = None
            \<longrightarrow> (\<exists>p'. db_progress db' = db_progress db @ [p']
                     \<and> find (progress_row (sub_user_id submission) (quiz_topic quiz))
                         (db_progress db') = Some p'
                     \<and> mastery_score p' = resp_score resp
                     \<and> quizzes_taken p' = 1))"
proof (intro conjI allI impI)
  let ?mine = "progress_row (sub_user_id submission) (quiz_topic quiz)"
  let ?f = "\<lambda>p. p\<lparr>quizzes_taken := quizzes_taken p + 1,
                   mastery_score := (mastery_score p + resp_score resp) / 2,
                   last_studied := now\<rparr>"
  fix p assume found: "find ?mine (db_progress db) = Some p"
  have keep: "\<And>x. ?mine x \<Longrightarrow> ?mine (?f x)" by (simp add: progress_row_def)
  from submit_quiz_Inr [OF assms] found
  have rows: "db_progress db' = update_first ?mine ?f (db_progress db)" by simp
  have "find ?mine (db_progress db') = Some (?f p)"
    unfolding rows using find_update_first [of ?mine ?f "db_progress db", OF keep] found by simp
  moreover have "length (db_progress db') = length (db_progress db)"
    unfolding rows by simp
  ultimately show "\<exists>p'. find ?mine (db_progress db') = Some p'
                     \<and> mastery_score p' = (mastery_score p + resp_score resp) / 2
                     \<and> quizzes_taken p' = quizzes_taken p + 1
                     \<and> length (db_progress db') = length (db_progress db)"
    by simp
next
  let ?mine = "progress_row (sub_user_id submission) (quiz_topic quiz)"
  let ?new = "\<lparr>progress_id = next_id (map progress_id (db_progress db)),
               progress_user_id = sub_user_id submission,
               progress_topic = quiz_topic quiz,
               mastery_score = resp_score resp,
               study_time_minutes = 0,
               quizzes_taken = 1,
               last_studied = now\<rparr>"
  assume none: "find ?mine (db_progress db) = None"
  from submit_quiz_Inr [OF assms] none
  have rows: "db_progress db' = db_progress db @ [?new]" by simp
  have "?mine ?new" by (simp add: progress_row_def)
  with none have "find ?mine (db_progress db @ [?new]) = Some ?new"
    by (rule find_append_new)
  with rows show "\<exists>p'. db_progress db' = db_progress db @ [p']
                     \<and> find ?mine (db_progress db') = Some p'
                     \<and> mastery_score p' = resp_score resp
                     \<and> quizzes_taken p' = 1"
    by simp
qed

lemma example_count_correct:
  "count_correct (sub_answers example_submission) 0 (quiz_questions example_quiz) 0 = Inr 1"
  by (simp add: example_submission_def example_quiz_def dict_get_def str_nat.simps
        digit_char_def)

lemma example_submit:
  "\<exists>db'. submit_quiz example_db 200 example_submission =
           Inr (db', \<lparr>resp_score = 1 / 2, resp_correct = 1, resp_total = 2,
                      resp_percentage = 50\<rparr>)"
  using example_count_correct
  by (simp add: submit_quiz_def example_db_def Let_def example_submission_def
        example_quiz_def)

lemma fresh_submit:
  "\<exists>db'. submit_quiz fresh_db 200 example_submission =
           Inr (db', \<lparr>resp_score = 1 / 2, resp_correct = 1, resp_total = 2,
                      resp_percentage = 50\<rparr>)"
  using example_count_correct
  by (simp add: submit_quiz_def fresh_db_def Let_def example_submission_def
        example_quiz_def)

theorem submit_quiz_progress_witness:
  "(\<exists>db' resp. submit_quiz example_db 200 example_submission = Inr (db', resp)
       \<and> find (progress_row 7 ''cells'') (db_progress example_db) = Some example_progress
       \<and> mastery_score example_progress = 1 / 4
       \<and> quizzes_taken example_progress = 3
       \<and> resp_score resp = 1 / 2
       \<and> (\<exists>p'. find (progress_row 7 ''cells'') (db_progress db') = Some p'
              \<and> mastery_score p' = 3 / 8 \<and> quizzes_taken p' = 4))
   \<and> (\<exists>db' resp. submit_quiz fresh_db 200 example_submission = Inr (db', resp)
       \<and> find (progress_row 7 ''cells'') (db_progress fresh_db) = None
       \<and> resp_score resp = 1 / 2
       \<and> (\<exists>p'. db_progress db' = db_progress fresh_db @ [p']
              \<and> mastery_score p' = 1 / 2 \<and> quizzes_taken p' = 1))"
proof (intro conjI)
  let ?resp = "\<lparr>resp_score = 1 / 2, resp_correct = 1, resp_total = 2, resp_percentage = 50\<rparr>"
  from example_submit obtain db' where
    r: "submit_quiz example_db 200 example_submission = Inr (db', ?resp)" by blast
  have u: "sub_user_id example_submission = 7" by (simp add: example_submission_def)
  have t: "quiz_topic example_quiz = ''cells''" by (simp add: example_quiz_def)
  have f: "find (progress_row 7 ''cells'') (db_progress example_db) = Some example_progress"
    by (simp add: example_db_def example_progress_def progress_row_def)
  have m: "mastery_score example_progress = 1 / 4" "quizzes_taken example_progress = 3"
    by (simp_all add: example_progress_def)
  from submit_quiz_progress [OF r example_find_quiz] f
  have "\<exists>p'. find (progress_row 7 ''cells'') (db_progress db') = Some p'
              \<and> mastery_score p' = 3 / 8 \<and> quizzes_taken p' = 4"
    by (auto simp: u t m)
  with r f m
  show "\<exists>db' resp. submit_quiz example_db 200 example_submission = Inr (db', resp)
       \<and> find (progress_row 7 ''cells'') (db_progress example_db) = Some example_progress
       \<and> mastery_score example_progress = 1 / 4
       \<and> quizzes_taken example_progress = 3
       \<and> resp_score resp = 1 / 2
       \<and> (\<exists>p'. find (progress_row 7 ''cells'') (db_progress db') = Some p'
              \<and> mastery_score p' = 3 / 8 \<and> quizzes_taken p' = 4)"
    by (intro exI [of _ db'] exI [of _ ?resp]) simp
next
  let ?resp = "\<lparr>resp_score = 1 / 2, resp_correct = 1, resp_total = 2, resp_percentage = 50\<rparr>"
  from fresh_submit obtain db' where
    r: "submit_quiz fresh_db 200 example_submission = Inr (db', ?resp)" by blast
  have q: "find (\<lambda>q. quiz_id q = sub_quiz_id example_submission) (db_quizzes fresh_db) = Some example_quiz"
    by (simp add: fresh_db_def example_quiz_def example_submission_def)
  have u: "sub_user_id example_submission = 7" by (simp add: example_submission_def)
  have t: "quiz_topic example_quiz = ''cells''" by (simp add: example_quiz_def)
  have f: "find (progress_row 7 ''cells'') (db_progress fresh_db) = None"
    by (simp add: fresh_db_def)
  from submit_quiz_progress [OF r q] f
  have "\<exists>p'. db_progress db' = db_progress fresh_db @ [p']
              \<and> mastery_score p' = 1 / 2 \<and> quizzes_taken p' = 1"
    by (auto simp: u t)
  with r f
  show "\<exists>db' resp. submit_quiz fresh_db 200 example_submission = Inr (db', resp)
       \<and> find (progress_row 7 ''cells'') (db_progress fresh_db) = None
       \<and> resp_score resp = 1 / 2
       \<and> (\<exists>p'. db_progress db' = db_progress fresh_db @ [p']
              \<and> mastery_score p' = 1 / 2 \<and> quizzes_taken p' = 1)"
    by (intro exI [of _ db'] exI [of _ ?resp]) simp
qed

subsection \<open>The study-time update\<close>

text \<open>Claim C10. If the user has a progress record on the topic, the update adds the submitted
  minutes to the study time of the first such record and sets its last-studied time, leaves
  its mastery score and its number of quizzes as they were, adds no row, and leaves the
  other tables alone; otherwise it adds a record with the submitted minutes, mastery score
  0 and no quiz taken.\<close>

theorem update_progress_study_time:
  "(\<forall>p. find (progress_row (pu_user_id progress_data) (pu_topic progress_data)) (db_progress db)
          = Some p \<longrightarrow>
        (\<exists>db' p'. update_progress db now progress_data = (db', p')
           \<and> find (progress_row (pu_user_id progress_data) (pu_topic progress_data))
               (db_progress db') = Some p'
           \<and> study_time_minutes p' = study_time_minutes p + pu_study_time_minutes progress_data
           \<and> last_studied p' = now
           \<and> mastery_score p' = mastery_score p
           \<and> quizzes_taken p' = quizzes_taken p
           \<and> length (db_progress db') = length (db_progress db)
           \<and> db_quizzes db' = db_quizzes db \<and> db_quiz_results db' = db_quiz_results db))
   \<and> (find (progress_row (pu_user_id progress_data) (pu_topic progress_data)) (db_progress db)
          = None \<longrightarrow>
        (\<exists>db' p'. update_progress db now progress_data = (db', p')
           \<and> db_progress db' = db_progress db @ [p']
           \<and> progress_user_id p' = pu_user_id progress_data
           \<and> progress_topic p' = pu_topic progress_data
           \<and> study_time_minutes p' = pu_study_time_minutes progress_data
           \<and> mastery_score p' = 0
           \<and> quizzes_taken p' = 0
           \<and> db_quizzes db' = db_quizzes db \<and> db_quiz_results db' = db_quiz_results db))"
proof (intro conjI allI impI)
  let ?mine = "progress_row (pu_user_id progress_data) (pu_topic progress_data)"
  fix p assume found: "find ?mine (db_progress db) = Some p"
  let ?p' = "p\<lparr>study_time_minutes := study_time_minutes p + pu_study_time_minutes progress_data,
               last_studied := now\<rparr>"
  let ?db' = "db\<lparr>db_progress := update_first ?mine (\<lambda>x. ?p') (db_progress db)\<rparr>"
  have eq: "update_progress db now progress_data = (?db', ?p')"
    using found by (simp add: update_progress_def Let_def)
  have "?mine p" using found by (rule find_Some_holds)
  then have mine: "?mine ?p'" by (simp add: progress_row_def)
  have fnd: "find ?mine (db_progress ?db') = Some ?p'"
    using find_update_first [of ?mine "\<lambda>x. ?p'" "db_progress db"] mine found by simp
  show "\<exists>db' p'. update_progress db now progress_data = (db', p')
           \<and> find ?mine (db_progress db') = Some p'
           \<and> study_time_minutes p' = study_time_minutes p + pu_study_time_minutes progress_data
           \<and> last_studied p' = now
           \<and> mastery_score p' = mastery_score p
           \<and> quizzes_taken p' = quizzes_taken p
           \<and> length (db_progress db') = length (db_progress db)
           \<and> db_quizzes db' = db_quizzes db \<and> db_quiz_results db' = db_quiz_results db"
    using eq fnd by (intro exI [of _ ?db'] exI [of _ ?p']) simp
next
  let ?mine = "progress_row (pu_user_id progress_data) (pu_topic progress_data)"
  assume none: "find ?mine (db_progress db) = None"
  then show "\<exists>db' p'. update_progress db now progress_data = (db', p')
           \<and> db_progress db' = db_progress db @ [p']
           \<and> progress_user_id p' = pu_user_id progress_data
           \<and> progress_topic p' = pu_topic progress_data
           \<and> study_time_minutes p' = pu_study_time_minutes progress_data
           \<and> mastery_score p' = 0
           \<and> quizzes_taken p' = 0
           \<and> db_quizzes db' = db_quizzes db \<and> db_quiz_results db' = db_quiz_results db"
    by (simp add: update_progress_def Let_def)
qed

theorem update_progress_study_time_witness:
  "find (progress_row (pu_user_id example_update) (pu_topic example_update))
     (db_progress example_db) = Some example_progress
   \<and> (\<exists>db' p'. update_progress example_db 200 example_update = (db', p')
         \<and> study_time_minutes p' = 45 \<and> last_studied p' = 200
         \<and> mastery_score p' = 1 / 4 \<and> quizzes_taken p' = 3
         \<and> length (db_progress db') = 1)
   \<and> find (progress_row (pu_user_id example_update) (pu_topic example_update))
       (db_progress fresh_db) = None
   \<and> (\<exists>db' p'. update_progress fresh_db 200 example_update = (db', p')
         \<and> db_progress db' = [p']
         \<and> study_time_minutes p' = 15 \<and> mastery_score p' = 0 \<and> quizzes_taken p' = 0)"
proof -
  have f: "find (progress_row (pu_user_id example_update) (pu_topic example_update))
     (db_progress example_db) = Some example_progress"
    by (simp add: example_db_def example_progress_def example_update_def progress_row_def)
  have n: "find (progress_row (pu_user_id example_update) (pu_topic example_update))
       (db_progress fresh_db) = None"
    by (simp add: fresh_db_def)
  from update_progress_study_time [of example_update example_db 200] f
  have a: "\<exists>db' p'. update_progress example_db 200 example_update = (db', p')
         \<and> study_time_minutes p' = 45 \<and> last_studied p' = 200
         \<and> mastery_score p' = 1 / 4 \<and> quizzes_taken p' = 3
         \<and> length (db_progress db') = 1"
    by (auto simp: example_progress_def example_update_def example_db_def progress_row_def)
  from update_progress_study_time [of example_update fresh_db 200] n
  have b: "\<exists>db' p'. update_progress fresh_db 200 example_update = (db', p')
         \<and> db_progress db' = [p']
         \<and> study_time_minutes p' = 15 \<and> mastery_score p' = 0 \<and> quizzes_taken p' = 0"
    by (auto simp: example_update_def fresh_db_def)
  from f a n b show ?thesis by blast
qed


section \<open>Properties of the knowledge graph builder\<close>

lemma layout_graph_needs_dict:
  "\<forall>d. g \<noteq> PDict d \<Longrightarrow> layout_graph env g = Inl TypeError"
  by (cases g) (simp_all add: layout_graph_def)

text \<open>A parsed value that is not an object with both keys does not get through the validation
  and the first subscript: an object lacks a key, a list or a string that happens to contain
  both words takes no string subscript, and nothing else is a container.\<close>

lemma validation_rejects:
  assumes "\<not> has_nodes_and_edges g"
  shows "\<exists>e. (case py_contains ''nodes'' g of
               Inl e \<Rightarrow> Inl e
             | Inr has_nodes \<Rightarrow>
                 if \<not> has_nodes then Inl ValueError
                 else
                   (case py_contains ''edges'' g of
                      Inl e \<Rightarrow> Inl e
                    | Inr has_edges \<Rightarrow>
                        if \<not> has_edges then Inl ValueError
                        else layout_graph env g)) = Inl e"
proof (cases g)
  case (PDict d)
  with assms show ?thesis by (auto simp: has_nodes_and_edges_def)
next
  case (PList xs)
  then have "layout_graph env g = Inl TypeError" by (simp add: layout_graph_def)
  with PList show ?thesis by simp
next
  case (PStr s)
  then have "layout_graph env g = Inl TypeError" by (simp add: layout_graph_def)
  with PStr show ?thesis by simp
qed simp_all

lemma build_graph_try_raises:
  assumes "case json_loads env (json_candidate response) of
             Inl e \<Rightarrow> True
           | Inr g \<Rightarrow> \<not> has_nodes_and_edges g \<or> (\<exists>e. layout_graph env g = Inl e)"
  shows "\<exists>e. build_graph_try env response = Inl e"
proof (cases "json_loads env (json_candidate response)")
  case (Inl e)
  then show ?thesis by (simp add: build_graph_try_def)
next
  case (Inr g)
  with assms have "\<not> has_nodes_and_edges g \<or> (\<exists>e. layout_graph env g = Inl e)" by simp
  then show ?thesis
  proof
    assume "\<not> has_nodes_and_edges g"
    from validation_rejects [OF this, of env] Inr show ?thesis
      by (simp add: build_graph_try_def)
  next
    assume "\<exists>e. layout_graph env g = Inl e"
    then obtain e where "layout_graph env g = Inl e" by blast
    with Inr show ?thesis
      by (auto simp: build_graph_try_def split: sum.splits)
  qed
qed

text \<open>Claim C9. Once the model has answered, \<open>build_graph\<close> returns a graph, whatever the
  answer is. If the text handed to \<^verbatim>\<open>json.loads\<close> does not parse, or parses to something
  other than an object with both \<^verbatim>\<open>nodes\<close> and \<^verbatim>\<open>edges\<close>, or a later step (building the
  graph, the layout, attaching the positions) raises, the graph returned is exactly the
  single-node fallback for the topic.\<close>

theorem build_graph_fallback:
  assumes "kg_ainvoke env (build_graph_prompt content topic) = Inr response"
  shows "(\<exists>g. build_graph env content topic = Inr g)
         \<and> ((case json_loads env (json_candidate response) of
                Inl e \<Rightarrow> True
              | Inr g \<Rightarrow> \<not> has_nodes_and_edges g \<or> (\<exists>e. layout_graph env g = Inl e))
             \<longrightarrow> build_graph env content topic = Inr (fallback_graph topic))"
proof (intro conjI impI)
  from assms show "\<exists>g. build_graph env content topic = Inr g"
    by (simp add: build_graph_def)
next
  assume "case json_loads env (json_candidate response) of
            Inl e \<Rightarrow> True
          | Inr g \<Rightarrow> \<not> has_nodes_and_edges g \<or> (\<exists>e. layout_graph env g = Inl e)"
  from build_graph_try_raises [OF this] obtain e where
    "build_graph_try env response = Inl e" by blast
  with assms show "build_graph env content topic = Inr (fallback_graph topic)"
    by (simp add: build_graph_def graph_of_response_def)
qed

lemma example_json_candidate: "json_candidate ''Sorry, all I have is {} for this.'' = ''{}''"
  by (simp add: json_candidate_def re_search_braces_def)

theorem build_graph_fallback_witness:
  "kg_ainvoke example_kg_env (build_graph_prompt ''Cells are small.'' ''cells'') =
     Inr ''Sorry, all I have is {} for this.''
   \<and> json_loads example_kg_env (json_candidate ''Sorry, all I have is {} for this.'') =
       Inr (PDict [])
   \<and> \<not> has_nodes_and_edges (PDict [])
   \<and> build_graph example_kg_env ''Cells are small.'' ''cells'' =
       Inr (PDict [(''nodes'',
                    PList [PDict [(''id'', PStr ''main_topic''), (''label'', PStr ''cells''),
                                  (''type'', PStr ''core''), (''x'', PInt 0), (''y'', PInt 0)]]),
                   (''edges'', PList [])])"
proof -
  have a: "kg_ainvoke example_kg_env (build_graph_prompt ''Cells are small.'' ''cells'') =
     Inr ''Sorry, all I have is {} for this.''"
    by (simp add: example_kg_env_def)
  have j: "json_loads example_kg_env (json_candidate ''Sorry, all I have is {} for this.'') =
       Inr (PDict [])"
    by (simp add: example_json_candidate example_kg_env_def)
  have n: "\<not> has_nodes_and_edges (PDict [])"
    by (simp add: has_nodes_and_edges_def)
  from build_graph_fallback [OF a] j n
  have "build_graph example_kg_env ''Cells are small.'' ''cells'' = Inr (fallback_graph ''cells'')"
    by simp
  with a j n show ?thesis by (simp add: fallback_graph_def)
qed

end
